theory Spec2Isabelle
  imports Main
begin

section \<open>The world the script runs in\<close>

text \<open>
  \<^verbatim>\<open>run_trim_neck.py\<close> computes nothing itself: it starts child processes, asks the
  file system two questions, creates a directory and copies one file. The model makes
  that world explicit. A file system is a table of regular files and a set of
  directories; paths are compared as strings (no normalisation, no symbolic links, no
  permissions). What a child process does is a parameter of the model: given the argument
  list and the file system it returns its exit status and streams and the file system it
  leaves behind, or nothing when the program cannot be started at all.
\<close>

type_synonym path = string

record filesys =
  files :: "path \<rightharpoonup> string"
  dirs :: "path set"

text \<open>The three fields of \<^verbatim>\<open>subprocess.CompletedProcess\<close> that the script reads.\<close>

record completed =
  returncode :: int
  stdout :: string
  stderr :: string

record env =
  spawn :: "string list \<Rightarrow> filesys \<Rightarrow> (completed \<times> filesys) option"
  tmp_prefix :: string

text \<open>
  The exceptions that can travel through the script: its own \<^verbatim>\<open>PipelineError\<close>,
  \<^verbatim>\<open>SystemExit\<close> from \<^verbatim>\<open>sys.exit\<close>, \<^verbatim>\<open>IndexError\<close> from \<^verbatim>\<open>cmd[0]\<close>, and the
  \<^verbatim>\<open>OSError\<close> family of the library calls (kind and file name).
\<close>

datatype exc =
    PipelineError string
  | SystemExit int
  | IndexError
  | OSError string path

text \<open>
  Every interaction of the script with the outside is recorded, in order, together with
  its answer: a line printed, the stack trace, a child process that ran (with what it
  returned) or could not be started, the scratch directory, an existence test, a
  directory creation and a file copy (the flag says whether it went through), and the
  traceback that the interpreter prints for an exception nobody caught.
\<close>

datatype event =
    Print string
  | PrintStack
  | Ran "string list" completed
  | SpawnFailed "string list"
  | TempDir path
  | Exists path bool
  | MakeDirs path bool
  | CopyFile path path bool
  | Traceback exc

text \<open>The state: the file system, the module's global \<^verbatim>\<open>__verbose__\<close>, and the record.\<close>

record state =
  fsys :: filesys
  verbose :: bool
  trace :: "event list"

type_synonym 'a prog = "state \<Rightarrow> (exc + 'a) \<times> state"

definition ret :: "'a \<Rightarrow> 'a prog" where
  "ret x s = (Inr x, s)"

definition raise :: "exc \<Rightarrow> 'a prog" where
  "raise e s = (Inl e, s)"

text \<open>Statement sequencing: an exception of the first statement skips the rest.\<close>

definition seq :: "'a prog \<Rightarrow> ('a \<Rightarrow> 'b prog) \<Rightarrow> 'b prog" where
  "seq m f s = (case m s of (Inl e, s') \<Rightarrow> (Inl e, s') | (Inr x, s') \<Rightarrow> f x s')"

text \<open>\<^verbatim>\<open>try: m  except PipelineError: h\<close>; every other exception passes through.\<close>

definition except_PipelineError :: "'a prog \<Rightarrow> 'a prog \<Rightarrow> 'a prog" where
  "except_PipelineError m h s =
     (case m s of
        (Inl (PipelineError msg), s') \<Rightarrow> h s'
      | other \<Rightarrow> other)"

definition emit :: "event \<Rightarrow> unit prog" where
  "emit e s = (Inr (), s\<lparr>trace := trace s @ [e]\<rparr>)"

definition print :: "string \<Rightarrow> unit prog" where
  "print text = emit (Print text)"

definition print_stack :: "unit prog" where
  "print_stack = emit PrintStack"

definition get_verbose :: "bool prog" where
  "get_verbose s = (Inr (verbose s), s)"

definition sys_exit :: "int \<Rightarrow> 'a prog" where
  "sys_exit n = raise (SystemExit n)"

subsection \<open>Strings and paths\<close>

text \<open>\<^verbatim>\<open>sep.join(xs)\<close>.\<close>

fun str_join :: "string \<Rightarrow> string list \<Rightarrow> string" where
  "str_join sep [] = []"
| "str_join sep [x] = x"
| "str_join sep (x # y # ys) = x @ sep @ str_join sep (y # ys)"

text \<open>\<^verbatim>\<open>str(n)\<close> for an integer, as the f-string of the pad step formats it.\<close>

fun show_nat :: "nat \<Rightarrow> string" where
  "show_nat n =
     (if n < 10 then [''0123456789'' ! n]
      else show_nat (n div 10) @ [''0123456789'' ! (n mod 10)])"

declare show_nat.simps [simp del]

definition show_int :: "int \<Rightarrow> string" where
  "show_int i = (if i < 0 then ''-'' @ show_nat (nat (- i)) else show_nat (nat i))"

text \<open>Reading a decimal numeral back, to check the rendering against.\<close>

definition read_nat :: "string \<Rightarrow> nat" where
  "read_nat s = foldl (\<lambda>acc c. 10 * acc + (of_char c - 48)) 0 s"

text \<open>\<^verbatim>\<open>cmd[0]\<close>, which raises on the empty list.\<close>

definition index0 :: "'a list \<Rightarrow> 'a prog" where
  "index0 xs = (case xs of [] \<Rightarrow> raise IndexError | x # _ \<Rightarrow> ret x)"

text \<open>
  \<^verbatim>\<open>os.path.join(a, b)\<close> of \<^verbatim>\<open>posixpath\<close>: an absolute second component replaces the
  first; otherwise the two are put together with exactly one separator between them.
\<close>

definition os_path_join :: "path \<Rightarrow> path \<Rightarrow> path" where
  "os_path_join a b =
     (if b \<noteq> [] \<and> hd b = CHR ''/'' then b
      else if a = [] \<or> last a = CHR ''/'' then a @ b
      else a @ ''/'' @ b)"

text \<open>
  \<^verbatim>\<open>os.path.dirname(p)\<close> of \<^verbatim>\<open>posixpath\<close>: everything up to and including the last
  slash, with trailing slashes removed unless that leaves only slashes.
\<close>

definition rstrip_slash :: "string \<Rightarrow> string" where
  "rstrip_slash p = rev (dropWhile (\<lambda>c. c = CHR ''/'') (rev p))"

definition os_path_dirname :: "path \<Rightarrow> path" where
  "os_path_dirname p =
     (let head = rev (dropWhile (\<lambda>c. c \<noteq> CHR ''/'') (rev p))
      in if head \<noteq> [] \<and> \<not> list_all (\<lambda>c. c = CHR ''/'') head then rstrip_slash head
         else head)"

subsection \<open>Library calls\<close>

text \<open>\<^verbatim>\<open>os.path.exists\<close>: false for the empty path, true for a file or a directory.\<close>

definition path_exists :: "filesys \<Rightarrow> path \<Rightarrow> bool" where
  "path_exists fs p = (p \<noteq> [] \<and> (p \<in> dom (files fs) \<or> p \<in> dirs fs))"

definition os_path_exists :: "path \<Rightarrow> bool prog" where
  "os_path_exists p s =
     (let b = path_exists (fsys s) p
      in (Inr b, s\<lparr>trace := trace s @ [Exists p b]\<rparr>))"

text \<open>
  \<^verbatim>\<open>os.makedirs(d)\<close>: refuses the empty name and a path that exists; otherwise the
  directory is there afterwards.
\<close>

definition os_makedirs :: "path \<Rightarrow> unit prog" where
  "os_makedirs d s =
     (if d = [] then
        (Inl (OSError ''FileNotFoundError'' d), s\<lparr>trace := trace s @ [MakeDirs d False]\<rparr>)
      else if path_exists (fsys s) d then
        (Inl (OSError ''FileExistsError'' d), s\<lparr>trace := trace s @ [MakeDirs d False]\<rparr>)
      else
        (Inr (), s\<lparr>fsys := (fsys s)\<lparr>dirs := insert d (dirs (fsys s))\<rparr>,
                   trace := trace s @ [MakeDirs d True]\<rparr>))"

text \<open>
  Whether \<^verbatim>\<open>open(dst, 'wb')\<close> can create or truncate a regular file: the name is not
  empty, does not end in a slash, is not a directory, and its directory part is empty
  (the current directory) or an existing directory.
\<close>

definition writable_file :: "filesys \<Rightarrow> path \<Rightarrow> bool" where
  "writable_file fs dst =
     (dst \<noteq> [] \<and> last dst \<noteq> CHR ''/'' \<and> dst \<notin> dirs fs \<and>
      (os_path_dirname dst = [] \<or> os_path_dirname dst \<in> dirs fs))"

text \<open>
  \<^verbatim>\<open>shutil.copyfile(src, dst)\<close>: refuses to copy a file onto itself, needs the source to
  be a regular file and the destination to be writable, and then gives the destination
  the bytes of the source.
\<close>

definition shutil_copyfile :: "path \<Rightarrow> path \<Rightarrow> unit prog" where
  "shutil_copyfile src dst s =
     (let fs = fsys s; failed = s\<lparr>trace := trace s @ [CopyFile src dst False]\<rparr>
      in if src = dst \<and> path_exists fs src then
           (Inl (OSError ''SameFileError'' src), failed)
         else case files fs src of
           None \<Rightarrow>
             (Inl (OSError (if src \<in> dirs fs then ''IsADirectoryError''
                            else ''FileNotFoundError'') src), failed)
         | Some bytes \<Rightarrow>
             if \<not> writable_file fs dst then
               (Inl (OSError (if dst \<in> dirs fs then ''IsADirectoryError''
                              else ''FileNotFoundError'') dst), failed)
             else
               (Inr (), s\<lparr>fsys := fs\<lparr>files := (files fs)(dst \<mapsto> bytes)\<rparr>,
                          trace := trace s @ [CopyFile src dst True]\<rparr>))"

text \<open>
  \<^verbatim>\<open>tempfile.TemporaryDirectory(suffix=...)\<close>: a new directory whose name ends in the
  suffix. Its removal when the interpreter exits is not part of the model: the final
  state of a run is the state just before that cleanup.
\<close>

definition TemporaryDirectory :: "env \<Rightarrow> string \<Rightarrow> path prog" where
  "TemporaryDirectory E suffix s =
     (let name = tmp_prefix E @ suffix
      in (Inr name, s\<lparr>fsys := (fsys s)\<lparr>dirs := insert name (dirs (fsys s))\<rparr>,
                      trace := trace s @ [TempDir name]\<rparr>))"

text \<open>
  \<^verbatim>\<open>subprocess.run(cmd, check=False, stdout=PIPE, stderr=PIPE, text=True)\<close>: blocks until
  the child has finished and returns its status and streams, whatever the status is;
  raises when the program cannot be started, and on an empty argument list.
\<close>

definition subprocess_run :: "env \<Rightarrow> string list \<Rightarrow> completed prog" where
  "subprocess_run E cmd s =
     (case cmd of
        [] \<Rightarrow> (Inl IndexError, s)
      | program # _ \<Rightarrow>
          (case spawn E cmd (fsys s) of
             None \<Rightarrow>
               (Inl (OSError ''FileNotFoundError'' program),
                s\<lparr>trace := trace s @ [SpawnFailed cmd]\<rparr>)
           | Some (result, fs') \<Rightarrow>
               (Inr result, s\<lparr>fsys := fs', trace := trace s @ [Ran cmd result]\<rparr>)))"

section \<open>The script\<close>

subsection \<open>\<^verbatim>\<open>run_command\<close>\<close>

definition run_command :: "env \<Rightarrow> string list \<Rightarrow> (string \<rightharpoonup> string) prog" where
  "run_command E cmd =
     seq get_verbose (\<lambda>v.
     seq (if v then
            seq (index0 cmd) (\<lambda>c0.
            seq (print (''--- Running '' @ c0 @ '' ---'')) (\<lambda>_.
            print (str_join '' '' cmd)))
          else ret ()) (\<lambda>_.
     seq (subprocess_run E cmd) (\<lambda>result.
     seq get_verbose (\<lambda>v.
     seq (if v then
            seq (print ''--- command stdout ---'') (\<lambda>_.
            seq (print (stdout result)) (\<lambda>_.
            seq (print ''--- command stderr ---'') (\<lambda>_.
            seq (print (stderr result)) (\<lambda>_.
            seq (index0 cmd) (\<lambda>c0.
            print (''--- end '' @ c0 @ '' ---''))))))
          else ret ()) (\<lambda>_.
     seq (if returncode result \<noteq> 0 then
            seq (print (''Error running command: '' @ str_join '' '' cmd)) (\<lambda>_.
            seq print_stack (\<lambda>_.
            seq get_verbose (\<lambda>v.
            if \<not> v then
              seq (print (''command stdout:'' @ [CHR 0x0A] @ stdout result)) (\<lambda>_.
              seq (print (''command stderr:'' @ [CHR 0x0A] @ stderr result)) (\<lambda>_.
              raise (PipelineError (''Error running command: '' @ str_join '' '' cmd))))
            else ret ())))
          else ret ()) (\<lambda>_.
     ret [''cmd_str'' \<mapsto> str_join '' '' cmd,
          ''stderr'' \<mapsto> stderr result,
          ''stdout'' \<mapsto> stdout result]))))))"

subsection \<open>\<^verbatim>\<open>trim_neck\<close>\<close>

text \<open>
  \<^verbatim>\<open>pad_mm=10\<close> in the signature: a caller may leave the padding out, and then it
  is 10.
\<close>

definition padding :: "int option \<Rightarrow> int" where
  "padding given = (case given of None \<Rightarrow> 10 | Some mm \<Rightarrow> mm)"

definition trim_neck :: "env \<Rightarrow> path \<Rightarrow> path \<Rightarrow> int option \<Rightarrow> path prog" where
  "trim_neck E input_image working_dir given =
     (let pad_mm = padding given;
          reoriented_image = os_path_join working_dir ''input_reoriented_LPI.nii.gz'' in
      seq (run_command E
             [''c3d'', input_image, ''-swapdim'', ''LPI'', ''-o'', reoriented_image]) (\<lambda>result.
      let tmp_image_trim = os_path_join working_dir ''T1wNeckTrim.nii.gz'';
          tmp_mask_trim = os_path_join working_dir ''T1wNeckTrim_mask.nii.gz'';
          tmp_trim_region_image = os_path_join working_dir ''T1wNeckTrim_region.nii.gz'' in
      seq (run_command E
             [''trim_neck.sh'', ''-c'', ''20'', ''-w'', working_dir,
              reoriented_image, tmp_image_trim]) (\<lambda>result.
      seq (run_command E
             [''c3d'', tmp_image_trim, ''-pad'',
              show_int pad_mm @ ''x'' @ show_int pad_mm @ ''x'' @ show_int pad_mm @ ''mm'',
              show_int pad_mm @ ''x'' @ show_int pad_mm @ ''x'' @ show_int pad_mm @ ''mm'',
              ''0'', ''-o'', tmp_image_trim]) (\<lambda>result.
      ret tmp_image_trim))))"

subsection \<open>\<^verbatim>\<open>main\<close>\<close>

text \<open>
  The two required options, as \<^verbatim>\<open>parser.parse_args()\<close> returns them
  (\<^verbatim>\<open>args.input\<close> and \<^verbatim>\<open>args.output\<close>; the second name is reserved in Isabelle,
  hence the prefix).
\<close>

record args =
  arg_input :: path
  arg_output :: path

definition main :: "env \<Rightarrow> args \<Rightarrow> unit prog" where
  "main E a =
     seq (except_PipelineError (run_command E [''c3d'', ''-h''])
            (seq (print ''Could not run c3d, check PATH'') (\<lambda>_. sys_exit 1))) (\<lambda>result.
     seq (except_PipelineError (run_command E [''trim_neck.sh'', ''-h''])
            (seq (print ''Could not run trim_neck.sh, check PATH'') (\<lambda>_. sys_exit 1))) (\<lambda>result.
     seq (TemporaryDirectory E ''t1wpreproc.tmpdir'') (\<lambda>base_working_dir.
     seq (os_path_exists (arg_input a)) (\<lambda>found.
     seq (if \<not> found then
            seq (print (''Input image '' @ arg_input a @ '' does not exist'')) (\<lambda>_. sys_exit 1)
          else ret ()) (\<lambda>_.
     let output_dir = os_path_dirname (arg_output a) in
     seq (if length output_dir > 0 then
            seq (os_path_exists output_dir) (\<lambda>there.
            if \<not> there then os_makedirs output_dir else ret ())
          else ret ()) (\<lambda>_.
     seq (trim_neck E (arg_input a) base_working_dir (Some 10)) (\<lambda>trimmed.
     shutil_copyfile trimmed (arg_output a))))))))"

text \<open>
  The process: the module is loaded (\<^verbatim>\<open>__verbose__ = False\<close>), \<^verbatim>\<open>main()\<close> runs, and the
  interpreter turns the way it ended into the exit status: 0 after a normal return, the
  argument of \<^verbatim>\<open>sys.exit\<close>, and 1, after printing the traceback, for any other
  exception that nobody caught.
\<close>

definition initial :: "filesys \<Rightarrow> state" where
  "initial fs = \<lparr>fsys = fs, verbose = False, trace = []\<rparr>"

fun exit_status :: "exc + unit \<Rightarrow> int" where
  "exit_status (Inr _) = 0"
| "exit_status (Inl (SystemExit n)) = n"
| "exit_status (Inl _) = 1"

fun uncaught :: "exc + unit \<Rightarrow> event list" where
  "uncaught (Inr _) = []"
| "uncaught (Inl (SystemExit n)) = []"
| "uncaught (Inl e) = [Traceback e]"

definition script :: "env \<Rightarrow> args \<Rightarrow> filesys \<Rightarrow> int \<times> state" where
  "script E a fs =
     (case main E a (initial fs) of
        (r, s) \<Rightarrow> (exit_status r, s\<lparr>trace := trace s @ uncaught r\<rparr>))"

section \<open>Vocabulary for the properties\<close>

text \<open>
  The commands handed to \<^verbatim>\<open>subprocess.run\<close> in a record, in order, whether the child
  could be started or not.
\<close>

fun spawned :: "event list \<Rightarrow> string list list" where
  "spawned [] = []"
| "spawned (Ran c r # es) = c # spawned es"
| "spawned (SpawnFailed c # es) = c # spawned es"
| "spawned (e # es) = spawned es"

text \<open>Console output, as opposed to an action on processes or files.\<close>

fun is_console :: "event \<Rightarrow> bool" where
  "is_console (Print _) = True"
| "is_console PrintStack = True"
| "is_console (Traceback _) = True"
| "is_console _ = False"

text \<open>The exit statuses of the children that ran, in order.\<close>

fun statuses :: "event list \<Rightarrow> int list" where
  "statuses [] = []"
| "statuses (Ran c r # es) = returncode r # statuses es"
| "statuses (e # es) = statuses es"

text \<open>What a record holds after, and before, (the first occurrence of) an event.\<close>

definition events_after :: "event \<Rightarrow> event list \<Rightarrow> event list" where
  "events_after e tr = tl (dropWhile (\<lambda>x. x \<noteq> e) tr)"

definition events_before :: "event \<Rightarrow> event list \<Rightarrow> event list" where
  "events_before e tr = takeWhile (\<lambda>x. x \<noteq> e) tr"

text \<open>What is new in the record of \<open>s'\<close> compared with that of \<open>s\<close>.\<close>

definition commands_since :: "state \<Rightarrow> state \<Rightarrow> string list list" where
  "commands_since s s' = drop (length (spawned (trace s))) (spawned (trace s'))"

text \<open>
  Names for lists that the lemmas below mention again and again: the four things a quiet
  \<^verbatim>\<open>run_command\<close> puts on the console when the child fails, the three argument lists
  of the pipeline, the scratch directory of a run and the image it ends with, and the
  record of a run up to the start of the pipeline (two probes, scratch directory, the test
  of the input, and what happens about the output directory).
\<close>

definition report :: "string list \<Rightarrow> completed \<Rightarrow> event list" where
  "report cmd result =
     [Print (''Error running command: '' @ str_join '' '' cmd),
      PrintStack,
      Print (''command stdout:'' @ [CHR 0x0A] @ stdout result),
      Print (''command stderr:'' @ [CHR 0x0A] @ stderr result)]"

definition reorient_cmd :: "path \<Rightarrow> path \<Rightarrow> string list" where
  "reorient_cmd img wd =
     [''c3d'', img, ''-swapdim'', ''LPI'', ''-o'', os_path_join wd ''input_reoriented_LPI.nii.gz'']"

definition trim_cmd :: "path \<Rightarrow> string list" where
  "trim_cmd wd =
     [''trim_neck.sh'', ''-c'', ''20'', ''-w'', wd,
      os_path_join wd ''input_reoriented_LPI.nii.gz'', os_path_join wd ''T1wNeckTrim.nii.gz'']"

definition pad_cmd :: "path \<Rightarrow> int \<Rightarrow> string list" where
  "pad_cmd wd P =
     [''c3d'', os_path_join wd ''T1wNeckTrim.nii.gz'', ''-pad'',
      show_int P @ ''x'' @ show_int P @ ''x'' @ show_int P @ ''mm'',
      show_int P @ ''x'' @ show_int P @ ''x'' @ show_int P @ ''mm'',
      ''0'', ''-o'', os_path_join wd ''T1wNeckTrim.nii.gz'']"

definition scratch_dir :: "env \<Rightarrow> path" where
  "scratch_dir E = tmp_prefix E @ ''t1wpreproc.tmpdir''"

definition trimmed_path :: "env \<Rightarrow> path" where
  "trimmed_path E = os_path_join (scratch_dir E) ''T1wNeckTrim.nii.gz''"

definition dir_events :: "filesys \<Rightarrow> path \<Rightarrow> event list" where
  "dir_events fs d =
     (if d = [] then []
      else if path_exists fs d then [Exists d True]
      else [Exists d False, MakeDirs d True])"

definition preamble :: "env \<Rightarrow> args \<Rightarrow> filesys \<Rightarrow> completed \<Rightarrow> completed \<Rightarrow> event list" where
  "preamble E a fs r1 r2 =
     [Ran [''c3d'', ''-h''] r1, Ran [''trim_neck.sh'', ''-h''] r2,
      TempDir (scratch_dir E), Exists (arg_input a) True]
     @ dir_events fs (os_path_dirname (arg_output a))"

text \<open>
  The record of a run in which \<^verbatim>\<open>run_command\<close> never echoed and always raised on
  failure: no command is started once anything has been printed; a command that exits
  with status 0 is not followed by console output; a command that exits with another
  status is followed by the four-part report, and the run ends in \<^verbatim>\<open>PipelineError\<close> for
  that command or, where a handler caught it, in \<^verbatim>\<open>sys.exit(1)\<close>.
\<close>

definition quiet_record :: "exc + unit \<Rightarrow> event list \<Rightarrow> bool" where
  "quiet_record res tr =
     (spawned (dropWhile (\<lambda>e. \<not> is_console e) tr) = []
      \<and> (\<forall>c r. Ran c r \<in> set tr \<longrightarrow>
          (if returncode r = 0
           then list_all (\<lambda>e. \<not> is_console e) (take 1 (events_after (Ran c r) tr))
           else take 4 (events_after (Ran c r) tr) = report c r
                \<and> res \<in> {Inl (PipelineError (''Error running command: '' @ str_join '' '' c)),
                           Inl (SystemExit 1)})))"

text \<open>A program that leaves \<^verbatim>\<open>__verbose__\<close> as it found it.\<close>

definition keeps_flag :: "'a prog \<Rightarrow> bool" where
  "keeps_flag m = (\<forall>s. verbose (snd (m s)) = verbose s)"

subsection \<open>Sample worlds\<close>

text \<open>
  Concrete environments on which the theorems are exercised. In the first every tool
  exits with status 0 and a tool that is given more than an option writes the file named
  by its last argument. In the second the pad step exits with status 1. In the third
  nothing can be executed: every child exits with status 127. The arguments are those of
  the example scenario (an output in a directory that does not exist yet), a bare output
  file name, and an output path that names an existing directory.
\<close>

definition ok_result :: completed where
  "ok_result = \<lparr>returncode = 0, stdout = ''done'', stderr = ''''\<rparr>"

definition tool_effect :: "string list \<Rightarrow> filesys \<Rightarrow> filesys" where
  "tool_effect cmd fs =
     (if 2 < length cmd then fs\<lparr>files := (files fs)(last cmd \<mapsto> ''voxels'')\<rparr> else fs)"

definition demo_env :: env where
  "demo_env = \<lparr>spawn = (\<lambda>cmd fs. Some (ok_result, tool_effect cmd fs)),
               tmp_prefix = ''/tmp/tmpk3f9''\<rparr>"

definition no_space :: completed where
  "no_space = \<lparr>returncode = 1, stdout = '''', stderr = ''no space left''\<rparr>"

definition pad_fails_env :: env where
  "pad_fails_env = \<lparr>spawn = (\<lambda>cmd fs. if ''-pad'' \<in> set cmd then Some (no_space, fs)
                                   else Some (ok_result, tool_effect cmd fs)),
                    tmp_prefix = ''/tmp/tmpk3f9''\<rparr>"

definition cannot_execute :: completed where
  "cannot_execute = \<lparr>returncode = 127, stdout = '''', stderr = ''c3d: cannot execute''\<rparr>"

definition refusing_env :: env where
  "refusing_env = \<lparr>spawn = (\<lambda>cmd fs. Some (cannot_execute, fs)),
                   tmp_prefix = ''/tmp/tmpk3f9''\<rparr>"

definition demo_args :: args where
  "demo_args = \<lparr>arg_input = ''brain_native.nii.gz'', arg_output = ''out/trimmed.nii.gz''\<rparr>"

definition demo_fs :: filesys where
  "demo_fs = \<lparr>files = [''brain_native.nii.gz'' \<mapsto> ''raw''], dirs = {}\<rparr>"

definition empty_fs :: filesys where
  "empty_fs = \<lparr>files = Map.empty, dirs = {}\<rparr>"

definition bare_args :: args where
  "bare_args = \<lparr>arg_input = ''brain_native.nii.gz'', arg_output = ''trimmed.nii.gz''\<rparr>"

definition dir_args :: args where
  "dir_args = \<lparr>arg_input = ''brain_native.nii.gz'', arg_output = ''out''\<rparr>"


section \<open>How the script behaves\<close>

subsection \<open>Strings and sequencing\<close>

lemma spawned_append [simp]: "spawned (xs @ ys) = spawned xs @ spawned ys"
  by (induction xs rule: spawned.induct) simp_all

text \<open>The digits that \<^verbatim>\<open>str\<close> writes denote the number that was written.\<close>

lemma digit_value: "n < 10 \<Longrightarrow> of_char (''0123456789'' ! n) - 48 = (n::nat)"
proof -
  assume "n < 10"
  then consider "n = 0" | "n = 1" | "n = 2" | "n = 3" | "n = 4" | "n = 5" | "n = 6" | "n = 7"
    | "n = 8" | "n = 9" by (auto simp: less_Suc_eq eval_nat_numeral)
  then show ?thesis by cases simp_all
qed

lemma read_show_nat: "read_nat (show_nat n) = n"
proof (induction n rule: show_nat.induct)
  case (1 n)
  show ?case
  proof (cases "n < 10")
    case True
    then show ?thesis
      by (subst show_nat.simps) (simp add: read_nat_def digit_value)
  next
    case False
    with 1 have "read_nat (show_nat (n div 10)) = n div 10" by simp
    with False show ?thesis
      by (subst show_nat.simps) (simp add: read_nat_def digit_value)
  qed
qed

lemma seqE:
  assumes "seq m f s = (r, s')"
  obtains (raised) e where "m s = (Inl e, s')" "r = Inl e"
        | (went_on) x s1 where "m s = (Inr x, s1)" "f x s1 = (r, s')"
  using assms by (auto simp: seq_def split: prod.splits sum.splits)

lemma scriptE:
  assumes "script E a fs = (st, s')"
  obtains r sm where "main E a (initial fs) = (r, sm)" "st = exit_status r"
    "trace s' = trace sm @ uncaught r" "fsys s' = fsys sm"
  using assms by (auto simp: script_def split: prod.splits)

subsection \<open>\<^verbatim>\<open>run_command\<close> with and without echo\<close>

text \<open>
  With \<^verbatim>\<open>__verbose__\<close> false the function prints nothing unless the child fails, and a
  failing child makes it raise. With the flag true everything is echoed, and the function
  returns the dictionary whatever the exit status was: the \<^verbatim>\<open>raise\<close> sits inside
  \<^verbatim>\<open>if not __verbose__:\<close>.
\<close>

lemma run_command_quiet:
  "\<not> verbose s \<Longrightarrow> run_command E cmd s =
     (case cmd of
        [] \<Rightarrow> (Inl IndexError, s)
      | program # _ \<Rightarrow>
          (case spawn E cmd (fsys s) of
             None \<Rightarrow>
               (Inl (OSError ''FileNotFoundError'' program),
                s\<lparr>trace := trace s @ [SpawnFailed cmd]\<rparr>)
           | Some (result, fs') \<Rightarrow>
               if returncode result \<noteq> 0 then
                 (Inl (PipelineError (''Error running command: '' @ str_join '' '' cmd)),
                  s\<lparr>fsys := fs', trace := trace s @ Ran cmd result # report cmd result\<rparr>)
               else
                 (Inr [''cmd_str'' \<mapsto> str_join '' '' cmd,
                       ''stderr'' \<mapsto> stderr result,
                       ''stdout'' \<mapsto> stdout result],
                  s\<lparr>fsys := fs', trace := trace s @ [Ran cmd result]\<rparr>)))"
  by (simp add: run_command_def seq_def get_verbose_def ret_def raise_def subprocess_run_def
      print_def print_stack_def emit_def report_def
      split: list.splits option.splits prod.splits)

lemma run_command_verbose:
  "verbose s \<Longrightarrow> run_command E cmd s =
     (case cmd of
        [] \<Rightarrow> (Inl IndexError, s)
      | program # _ \<Rightarrow>
          (case spawn E cmd (fsys s) of
             None \<Rightarrow>
               (Inl (OSError ''FileNotFoundError'' program),
                s\<lparr>trace := trace s @
                   [Print (''--- Running '' @ program @ '' ---''), Print (str_join '' '' cmd),
                    SpawnFailed cmd]\<rparr>)
           | Some (result, fs') \<Rightarrow>
               (Inr [''cmd_str'' \<mapsto> str_join '' '' cmd,
                     ''stderr'' \<mapsto> stderr result,
                     ''stdout'' \<mapsto> stdout result],
                s\<lparr>fsys := fs', trace := trace s @
                   [Print (''--- Running '' @ program @ '' ---''), Print (str_join '' '' cmd),
                    Ran cmd result,
                    Print ''--- command stdout ---'', Print (stdout result),
                    Print ''--- command stderr ---'', Print (stderr result),
                    Print (''--- end '' @ program @ '' ---'')]
                   @ (if returncode result \<noteq> 0
                      then [Print (''Error running command: '' @ str_join '' '' cmd), PrintStack]
                      else [])\<rparr>)))"
  by (simp add: run_command_def seq_def get_verbose_def ret_def raise_def subprocess_run_def
      print_def print_stack_def emit_def index0_def
      split: list.splits option.splits prod.splits)

lemma run_command_quietE:
  assumes "run_command E cmd s = (r, s')" and "\<not> verbose s" and "cmd \<noteq> []"
  obtains
    (launch) "spawn E cmd (fsys s) = None"
      "r = Inl (OSError ''FileNotFoundError'' (hd cmd))"
      "s' = s\<lparr>trace := trace s @ [SpawnFailed cmd]\<rparr>"
  | (nonzero) res fs' where "spawn E cmd (fsys s) = Some (res, fs')" "returncode res \<noteq> 0"
      "r = Inl (PipelineError (''Error running command: '' @ str_join '' '' cmd))"
      "s' = s\<lparr>fsys := fs', trace := trace s @ Ran cmd res # report cmd res\<rparr>"
  | (zero) res fs' where "spawn E cmd (fsys s) = Some (res, fs')" "returncode res = 0"
      "r = Inr [''cmd_str'' \<mapsto> str_join '' '' cmd, ''stderr'' \<mapsto> stderr res,
                ''stdout'' \<mapsto> stdout res]"
      "s' = s\<lparr>fsys := fs', trace := trace s @ [Ran cmd res]\<rparr>"
proof -
  from assms(3) obtain program rest where cmd: "cmd = program # rest"
    by (cases cmd) auto
  show ?thesis
  proof (cases "spawn E cmd (fsys s)")
    case None
    have "run_command E cmd s =
        (Inl (OSError ''FileNotFoundError'' program), s\<lparr>trace := trace s @ [SpawnFailed cmd]\<rparr>)"
      using assms(2) None unfolding cmd by (simp add: run_command_quiet)
    with assms(1) have "r = Inl (OSError ''FileNotFoundError'' (hd cmd))"
      "s' = s\<lparr>trace := trace s @ [SpawnFailed cmd]\<rparr>"
      by (simp_all add: cmd)
    with None show ?thesis by (rule launch)
  next
    case (Some p)
    obtain res fs' where p: "spawn E cmd (fsys s) = Some (res, fs')"
      using Some by (cases p) auto
    show ?thesis
    proof (cases "returncode res = 0")
      case True
      have "run_command E cmd s =
          (Inr [''cmd_str'' \<mapsto> str_join '' '' cmd, ''stderr'' \<mapsto> stderr res,
                ''stdout'' \<mapsto> stdout res],
           s\<lparr>fsys := fs', trace := trace s @ [Ran cmd res]\<rparr>)"
        using assms(2) p True unfolding cmd by (simp add: run_command_quiet)
      with assms(1) have "r = Inr [''cmd_str'' \<mapsto> str_join '' '' cmd, ''stderr'' \<mapsto> stderr res,
                ''stdout'' \<mapsto> stdout res]"
        "s' = s\<lparr>fsys := fs', trace := trace s @ [Ran cmd res]\<rparr>"
        by simp_all
      with p True show ?thesis by (rule zero)
    next
      case False
      have "run_command E cmd s =
          (Inl (PipelineError (''Error running command: '' @ str_join '' '' cmd)),
           s\<lparr>fsys := fs', trace := trace s @ Ran cmd res # report cmd res\<rparr>)"
        using assms(2) p False unfolding cmd by (simp add: run_command_quiet)
      with assms(1) have "r = Inl (PipelineError (''Error running command: '' @ str_join '' '' cmd))"
        "s' = s\<lparr>fsys := fs', trace := trace s @ Ran cmd res # report cmd res\<rparr>"
        by simp_all
      with p False show ?thesis by (rule nonzero)
    qed
  qed
qed

lemma run_command_spawned:
  assumes "run_command E cmd s = (r, s')" and "cmd \<noteq> []"
  shows "spawned (trace s') = spawned (trace s) @ [cmd]"
proof (cases "verbose s")
  case True
  from assms(2) obtain program rest where "cmd = program # rest" by (cases cmd) auto
  with assms(1) True show ?thesis
    by (auto simp: run_command_verbose split: option.splits)
next
  case False
  from assms(1) False assms(2) show ?thesis
    by (cases rule: run_command_quietE) (auto simp: report_def)
qed

subsection \<open>The pipeline\<close>

text \<open>
  The ways a quiet run of \<^verbatim>\<open>trim_neck\<close> can end (each step may fail to start, exit with
  a non-zero status, or succeed), and the commands of any run, quiet or not.
\<close>

lemma trim_neck_quietE:
  assumes run: "trim_neck E img wd given s = (r, s')" and quiet: "\<not> verbose s"
  obtains
    (launch1) "r = Inl (OSError ''FileNotFoundError'' ''c3d'')"
      "trace s' = trace s @ [SpawnFailed (reorient_cmd img wd)]"
  | (nonzero1) r1 where "returncode r1 \<noteq> 0"
      "r = Inl (PipelineError (''Error running command: '' @ str_join '' '' (reorient_cmd img wd)))"
      "trace s' = trace s @ Ran (reorient_cmd img wd) r1 # report (reorient_cmd img wd) r1"
  | (launch2) r1 where "returncode r1 = 0"
      "r = Inl (OSError ''FileNotFoundError'' ''trim_neck.sh'')"
      "trace s' = trace s @ [Ran (reorient_cmd img wd) r1, SpawnFailed (trim_cmd wd)]"
  | (nonzero2) r1 r2 where "returncode r1 = 0" "returncode r2 \<noteq> 0"
      "r = Inl (PipelineError (''Error running command: '' @ str_join '' '' (trim_cmd wd)))"
      "trace s' = trace s @ Ran (reorient_cmd img wd) r1 # Ran (trim_cmd wd) r2 # report (trim_cmd wd) r2"
  | (launch3) r1 r2 where "returncode r1 = 0" "returncode r2 = 0"
      "r = Inl (OSError ''FileNotFoundError'' ''c3d'')"
      "trace s' = trace s @ [Ran (reorient_cmd img wd) r1, Ran (trim_cmd wd) r2, SpawnFailed (pad_cmd wd (padding given))]"
  | (nonzero3) r1 r2 r3 where "returncode r1 = 0" "returncode r2 = 0" "returncode r3 \<noteq> 0"
      "r = Inl (PipelineError (''Error running command: '' @ str_join '' '' (pad_cmd wd (padding given))))"
      "trace s' = trace s @ Ran (reorient_cmd img wd) r1 # Ran (trim_cmd wd) r2 #
                    Ran (pad_cmd wd (padding given)) r3 # report (pad_cmd wd (padding given)) r3"
  | (finished) r1 r2 r3 where "returncode r1 = 0" "returncode r2 = 0" "returncode r3 = 0"
      "r = Inr (os_path_join wd ''T1wNeckTrim.nii.gz'')"
      "trace s' = trace s @ [Ran (reorient_cmd img wd) r1, Ran (trim_cmd wd) r2, Ran (pad_cmd wd (padding given)) r3]"
proof -
  let ?c1 = "reorient_cmd img wd" and ?c2 = "trim_cmd wd" and ?c3 = "pad_cmd wd (padding given)"
  have unfolded: "trim_neck E img wd given =
      seq (run_command E ?c1) (\<lambda>_. seq (run_command E ?c2) (\<lambda>_.
      seq (run_command E ?c3) (\<lambda>_. ret (os_path_join wd ''T1wNeckTrim.nii.gz''))))"
    by (simp add: trim_neck_def Let_def reorient_cmd_def trim_cmd_def pad_cmd_def)
  have ne: "?c1 \<noteq> []" "?c2 \<noteq> []" "?c3 \<noteq> []" and
    hd: "hd ?c1 = ''c3d''" "hd ?c2 = ''trim_neck.sh''" "hd ?c3 = ''c3d''"
    by (simp_all add: reorient_cmd_def trim_cmd_def pad_cmd_def)
  from run [unfolded unfolded] show ?thesis
  proof (cases rule: seqE)
    case (raised e)
    from raised(1) quiet ne(1) show ?thesis
    proof (cases rule: run_command_quietE)
      case launch
      show ?thesis
        by (rule launch1) (use raised launch hd in simp_all)
    next
      case (nonzero res fs')
      show ?thesis
        by (rule nonzero1 [of res]) (use raised nonzero in simp_all)
    next
      case (zero res fs')
      with raised show ?thesis by simp
    qed
  next
    case (went_on x1 s1)
    from went_on(1) quiet ne(1) obtain r1 where
      r1: "returncode r1 = 0" and t1: "trace s1 = trace s @ [Ran ?c1 r1]" and q1: "\<not> verbose s1"
    proof (cases rule: run_command_quietE)
      case (zero res fs')
      show ?thesis by (rule that [of res]) (use zero quiet in simp_all)
    qed simp_all
    from went_on(2) show ?thesis
    proof (cases rule: seqE)
      case (raised e)
      from raised(1) q1 ne(2) show ?thesis
      proof (cases rule: run_command_quietE)
        case launch
        show ?thesis
          by (rule launch2 [of r1]) (use raised launch hd r1 t1 in simp_all)
      next
        case (nonzero res fs')
        show ?thesis
          by (rule nonzero2 [of r1 res]) (use raised nonzero r1 t1 in simp_all)
      next
        case (zero res fs')
        with raised show ?thesis by simp
      qed
    next
      case (went_on x2 s2)
      from went_on(1) q1 ne(2) obtain r2 where
        r2: "returncode r2 = 0" and t2: "trace s2 = trace s1 @ [Ran ?c2 r2]" and q2: "\<not> verbose s2"
      proof (cases rule: run_command_quietE)
        case (zero res fs')
        show ?thesis by (rule that [of res]) (use zero q1 in simp_all)
      qed simp_all
      from went_on(2) show ?thesis
      proof (cases rule: seqE)
        case (raised e)
        from raised(1) q2 ne(3) show ?thesis
        proof (cases rule: run_command_quietE)
          case launch
          show ?thesis
            by (rule launch3 [of r1 r2]) (use raised launch hd r1 r2 t1 t2 in simp_all)
        next
          case (nonzero res fs')
          show ?thesis
            by (rule nonzero3 [of r1 r2 res]) (use raised nonzero r1 r2 t1 t2 in simp_all)
        next
          case (zero res fs')
          with raised show ?thesis by simp
        qed
      next
        case (went_on x3 s3)
        from went_on(1) q2 ne(3) obtain r3 where
          r3: "returncode r3 = 0" and t3: "trace s3 = trace s2 @ [Ran ?c3 r3]"
        proof (cases rule: run_command_quietE)
          case (zero res fs')
          show ?thesis by (rule that [of res]) (use zero in simp_all)
        qed simp_all
        from went_on(2) have fin: "r = Inr (os_path_join wd ''T1wNeckTrim.nii.gz'')" "s' = s3"
          by (simp_all add: ret_def)
        show ?thesis
          by (rule finished [of r1 r2 r3]) (use fin r1 r2 r3 t1 t2 t3 in simp_all)
      qed
    qed
  qed
qed

lemma trim_neck_commands:
  assumes run: "trim_neck E img wd given s = (r, s')"
  shows "\<exists>k\<in>{1, 2, 3}.
           spawned (trace s') = spawned (trace s) @ take k [reorient_cmd img wd, trim_cmd wd, pad_cmd wd (padding given)]
           \<and> (\<forall>p. r = Inr p \<longrightarrow> k = 3 \<and> p = os_path_join wd ''T1wNeckTrim.nii.gz'')"
proof -
  let ?c1 = "reorient_cmd img wd" and ?c2 = "trim_cmd wd" and ?c3 = "pad_cmd wd (padding given)"
  have unfolded: "trim_neck E img wd given =
      seq (run_command E ?c1) (\<lambda>_. seq (run_command E ?c2) (\<lambda>_.
      seq (run_command E ?c3) (\<lambda>_. ret (os_path_join wd ''T1wNeckTrim.nii.gz''))))"
    by (simp add: trim_neck_def Let_def reorient_cmd_def trim_cmd_def pad_cmd_def)
  have ne: "?c1 \<noteq> []" "?c2 \<noteq> []" "?c3 \<noteq> []"
    by (simp_all add: reorient_cmd_def trim_cmd_def pad_cmd_def)
  from run [unfolded unfolded] show ?thesis
  proof (cases rule: seqE)
    case (raised e)
    from run_command_spawned [OF raised(1) ne(1)] raised(2) show ?thesis
      by (intro bexI [of _ 1]) simp_all
  next
    case (went_on x1 s1)
    note t1 = run_command_spawned [OF went_on(1) ne(1)]
    from went_on(2) show ?thesis
    proof (cases rule: seqE)
      case (raised e)
      from run_command_spawned [OF raised(1) ne(2)] t1 raised(2) show ?thesis
        by (intro bexI [of _ 2]) simp_all
    next
      case (went_on x2 s2)
      note t2 = run_command_spawned [OF went_on(1) ne(2)]
      from went_on(2) show ?thesis
      proof (cases rule: seqE)
        case (raised e)
        from run_command_spawned [OF raised(1) ne(3)] t1 t2 raised(2) show ?thesis
          by (intro bexI [of _ 3]) simp_all
      next
        case (went_on x3 s3)
        note t3 = run_command_spawned [OF went_on(1) ne(3)]
        from went_on(2) have "r = Inr (os_path_join wd ''T1wNeckTrim.nii.gz'')" "s' = s3"
          by (simp_all add: ret_def)
        with t1 t2 t3 show ?thesis
          by (intro bexI [of _ 3]) simp_all
      qed
    qed
  qed
qed

subsection \<open>The entry point\<close>

text \<open>
  The ways a run of \<^verbatim>\<open>main\<close> from the initial state can end, each with its complete
  record: a probe that cannot be started or fails, a missing input, a pipeline step that
  cannot be started or fails, a copy that is refused, and the successful run.
\<close>

lemma probe_quietE:
  assumes run: "except_PipelineError (run_command E cmd) (seq (print msg) (\<lambda>_. sys_exit 1)) s = (r, s')"
    and quiet: "\<not> verbose s" and ne: "cmd \<noteq> []"
  obtains
    (launch) "r = Inl (OSError ''FileNotFoundError'' (hd cmd))"
      "trace s' = trace s @ [SpawnFailed cmd]" "\<not> verbose s'"
  | (nonzero) res where "returncode res \<noteq> 0" "r = Inl (SystemExit 1)"
      "trace s' = trace s @ Ran cmd res # report cmd res @ [Print msg]" "\<not> verbose s'"
  | (zero) res where "returncode res = 0" "\<exists>x. r = Inr x"
      "trace s' = trace s @ [Ran cmd res]" "\<not> verbose s'"
proof -
  obtain r0 s0 where call: "run_command E cmd s = (r0, s0)"
    by (cases "run_command E cmd s")
  from call quiet ne show ?thesis
  proof (cases rule: run_command_quietE)
    case launch
    show ?thesis
      by (rule that(1))
        (use run call launch quiet in \<open>auto simp: except_PipelineError_def\<close>)
  next
    case (nonzero res fs')
    show ?thesis
      by (rule that(2) [of res])
        (use run call nonzero quiet in
          \<open>auto simp: except_PipelineError_def seq_def print_def emit_def sys_exit_def raise_def\<close>)
  next
    case (zero res fs')
    show ?thesis
      by (rule that(3) [of res])
        (use run call zero quiet in \<open>auto simp: except_PipelineError_def\<close>)
  qed
qed

lemma shutil_copyfileE:
  assumes "shutil_copyfile src dst s = (r, s')"
  obtains
    (failed) k p where "r = Inl (OSError k p)"
      "s' = s\<lparr>trace := trace s @ [CopyFile src dst False]\<rparr>"
      "\<not> (files (fsys s) src \<noteq> None \<and> writable_file (fsys s) dst \<and> src \<noteq> dst)"
  | (copied) bytes where "r = Inr ()" "files (fsys s) src = Some bytes" "src \<noteq> dst"
      "writable_file (fsys s) dst"
      "s' = s\<lparr>fsys := (fsys s)\<lparr>files := (files (fsys s))(dst \<mapsto> bytes)\<rparr>,
               trace := trace s @ [CopyFile src dst True]\<rparr>"
proof (cases "files (fsys s) src \<noteq> None \<and> writable_file (fsys s) dst \<and> src \<noteq> dst")
  case True
  then obtain bytes where b: "files (fsys s) src = Some bytes" by auto
  show ?thesis
    by (rule copied [of bytes])
      (use assms True b in \<open>simp_all add: shutil_copyfile_def Let_def\<close>)
next
  case False
  have "\<exists>k p. r = Inl (OSError k p)" and "s' = s\<lparr>trace := trace s @ [CopyFile src dst False]\<rparr>"
    using assms False
    by (auto simp: shutil_copyfile_def Let_def path_exists_def writable_file_def split: option.splits if_splits)
  with False failed show ?thesis by blast
qed

lemma checks_eq:
  "seq (TemporaryDirectory E sfx) (\<lambda>t.
   seq (os_path_exists i) (\<lambda>found.
   seq (if \<not> found then seq (print msg) (\<lambda>_. sys_exit 1) else ret ()) (\<lambda>_.
   seq (if length d > 0 then
          seq (os_path_exists d) (\<lambda>there. if \<not> there then os_makedirs d else ret ())
        else ret ()) (\<lambda>_. K t)))) s =
   (let t = tmp_prefix E @ sfx; fs2 = (fsys s)\<lparr>dirs := insert t (dirs (fsys s))\<rparr>
    in if \<not> path_exists fs2 i then
         (Inl (SystemExit 1),
          s\<lparr>fsys := fs2, trace := trace s @ [TempDir t, Exists i False, Print msg]\<rparr>)
       else
         K t (s\<lparr>fsys := (if d \<noteq> [] \<and> \<not> path_exists fs2 d
                            then fs2\<lparr>dirs := insert d (dirs fs2)\<rparr> else fs2),
                  trace := trace s @ [TempDir t, Exists i True] @ dir_events fs2 d\<rparr>))"
  by (simp add: seq_def TemporaryDirectory_def os_path_exists_def os_makedirs_def Let_def
      print_def emit_def sys_exit_def raise_def ret_def dir_events_def)

lemma main_cases:
  assumes run: "main E a (initial fs) = (r, s')"
  obtains
    (c3d_launch) "r = Inl (OSError ''FileNotFoundError'' ''c3d'')"
      "trace s' = [SpawnFailed [''c3d'', ''-h'']]"
  | (c3d_nonzero) r1 where "returncode r1 \<noteq> 0" "r = Inl (SystemExit 1)"
      "trace s' = Ran [''c3d'', ''-h''] r1 # report [''c3d'', ''-h''] r1
                  @ [Print ''Could not run c3d, check PATH'']"
  | (sh_launch) r1 where "returncode r1 = 0"
      "r = Inl (OSError ''FileNotFoundError'' ''trim_neck.sh'')"
      "trace s' = [Ran [''c3d'', ''-h''] r1, SpawnFailed [''trim_neck.sh'', ''-h'']]"
  | (sh_nonzero) r1 r2 where "returncode r1 = 0" "returncode r2 \<noteq> 0" "r = Inl (SystemExit 1)"
      "trace s' = Ran [''c3d'', ''-h''] r1 # Ran [''trim_neck.sh'', ''-h''] r2
                  # report [''trim_neck.sh'', ''-h''] r2
                  @ [Print ''Could not run trim_neck.sh, check PATH'']"
  | (no_input) r1 r2 where "returncode r1 = 0" "returncode r2 = 0" "r = Inl (SystemExit 1)"
      "trace s' = [Ran [''c3d'', ''-h''] r1, Ran [''trim_neck.sh'', ''-h''] r2,
                   TempDir (scratch_dir E), Exists (arg_input a) False,
                   Print (''Input image '' @ arg_input a @ '' does not exist'')]"
  | (pipeline) r1 r2 fs2 s3 where "returncode r1 = 0" "returncode r2 = 0"
      "path_exists fs2 (arg_input a)"
      "trace s3 = preamble E a fs2 r1 r2" "\<not> verbose s3"
      "seq (trim_neck E (arg_input a) (scratch_dir E) (Some 10))
           (\<lambda>trimmed. shutil_copyfile trimmed (arg_output a)) s3 = (r, s')"
proof -
  let ?p1 = "[''c3d'', ''-h'']" and ?p2 = "[''trim_neck.sh'', ''-h'']"
  let ?h1 = "seq (print ''Could not run c3d, check PATH'') (\<lambda>_. sys_exit 1) :: (string \<rightharpoonup> string) prog"
  let ?h2 = "seq (print ''Could not run trim_neck.sh, check PATH'') (\<lambda>_. sys_exit 1) :: (string \<rightharpoonup> string) prog"
  have q0: "\<not> verbose (initial fs)" and t0: "trace (initial fs) = []"
    by (simp_all add: initial_def)
  have ne: "?p1 \<noteq> []" "?p2 \<noteq> []" by simp_all
  from run [unfolded main_def] show ?thesis
  proof (cases rule: seqE)
    case (raised e)
    from raised(1) q0 ne(1) show ?thesis
    proof (cases rule: probe_quietE)
      case launch
      show ?thesis by (rule c3d_launch) (use raised launch t0 in auto)
    next
      case (nonzero res)
      show ?thesis by (rule c3d_nonzero [of res]) (use raised nonzero t0 in auto)
    next
      case (zero res)
      with raised show ?thesis by auto
    qed
  next
    case (went_on x1 s1)
    from went_on(1) q0 ne(1) obtain r1 where
      r1: "returncode r1 = 0" and t1: "trace s1 = [Ran ?p1 r1]" and q1: "\<not> verbose s1"
    proof (cases rule: probe_quietE)
      case (zero res)
      show ?thesis by (rule that [of res]) (use zero t0 in auto)
    qed auto
    from went_on(2) show ?thesis
    proof (cases rule: seqE)
      case (raised e)
      from raised(1) q1 ne(2) show ?thesis
      proof (cases rule: probe_quietE)
        case launch
        show ?thesis by (rule sh_launch [of r1]) (use raised launch r1 t1 in auto)
      next
        case (nonzero res)
        show ?thesis by (rule sh_nonzero [of r1 res]) (use raised nonzero r1 t1 in auto)
      next
        case (zero res)
        with raised show ?thesis by auto
      qed
    next
      case (went_on x2 s2)
      from went_on(1) q1 ne(2) obtain r2 where
        r2: "returncode r2 = 0" and t2: "trace s2 = [Ran ?p1 r1, Ran ?p2 r2]"
        and q2: "\<not> verbose s2"
      proof (cases rule: probe_quietE)
        case (zero res)
        show ?thesis by (rule that [of res]) (use zero t1 in auto)
      qed auto
      define fs2 where "fs2 = (fsys s2)\<lparr>dirs := insert (scratch_dir E) (dirs (fsys s2))\<rparr>"
      define d where "d = os_path_dirname (arg_output a)"
      define s3 where "s3 = s2\<lparr>fsys := (if d \<noteq> [] \<and> \<not> path_exists fs2 d
                            then fs2\<lparr>dirs := insert d (dirs fs2)\<rparr> else fs2),
                  trace := trace s2 @ [TempDir (scratch_dir E), Exists (arg_input a) True]
                           @ dir_events fs2 d\<rparr>"
      note rest = went_on(2) [unfolded Let_def checks_eq, folded scratch_dir_def,
          unfolded Let_def, folded fs2_def d_def]
      show ?thesis
      proof (cases "path_exists fs2 (arg_input a)")
        case False
        show ?thesis
          by (rule no_input [of r1 r2]) (use rest False r1 r2 t2 in auto)
      next
        case True
        show ?thesis
          by (rule pipeline [of r1 r2 fs2 s3])
            (use rest True r1 r2 t2 q2 in \<open>auto simp: s3_def preamble_def d_def\<close>)
      qed
    qed
  qed
qed

lemma cli_cases:
  assumes run: "main E a (initial fs) = (r, s')"
  obtains
    (c3d_launch) "r = Inl (OSError ''FileNotFoundError'' ''c3d'')"
      "trace s' = [SpawnFailed [''c3d'', ''-h'']]"
  | (c3d_nonzero) r1 where "returncode r1 \<noteq> 0" "r = Inl (SystemExit 1)"
      "trace s' = Ran [''c3d'', ''-h''] r1 # report [''c3d'', ''-h''] r1
                  @ [Print ''Could not run c3d, check PATH'']"
  | (sh_launch) r1 where "returncode r1 = 0"
      "r = Inl (OSError ''FileNotFoundError'' ''trim_neck.sh'')"
      "trace s' = [Ran [''c3d'', ''-h''] r1, SpawnFailed [''trim_neck.sh'', ''-h'']]"
  | (sh_nonzero) r1 r2 where "returncode r1 = 0" "returncode r2 \<noteq> 0" "r = Inl (SystemExit 1)"
      "trace s' = Ran [''c3d'', ''-h''] r1 # Ran [''trim_neck.sh'', ''-h''] r2
                  # report [''trim_neck.sh'', ''-h''] r2
                  @ [Print ''Could not run trim_neck.sh, check PATH'']"
  | (no_input) r1 r2 where "returncode r1 = 0" "returncode r2 = 0" "r = Inl (SystemExit 1)"
      "trace s' = [Ran [''c3d'', ''-h''] r1, Ran [''trim_neck.sh'', ''-h''] r2,
                   TempDir (scratch_dir E), Exists (arg_input a) False,
                   Print (''Input image '' @ arg_input a @ '' does not exist'')]"
  | (reorient_launch) r1 r2 fs2 where "returncode r1 = 0" "returncode r2 = 0"
      "path_exists fs2 (arg_input a)"
      "r = Inl (OSError ''FileNotFoundError'' ''c3d'')"
      "trace s' = preamble E a fs2 r1 r2 @
         [SpawnFailed (reorient_cmd (arg_input a) (scratch_dir E))]"
  | (reorient_nonzero) r1 r2 fs2 r3 where "returncode r1 = 0" "returncode r2 = 0"
      "path_exists fs2 (arg_input a)" "returncode r3 \<noteq> 0"
      "r = Inl (PipelineError (''Error running command: '' @
              str_join '' '' (reorient_cmd (arg_input a) (scratch_dir E))))"
      "trace s' = preamble E a fs2 r1 r2 @
         Ran (reorient_cmd (arg_input a) (scratch_dir E)) r3 #
         report (reorient_cmd (arg_input a) (scratch_dir E)) r3"
  | (trim_launch) r1 r2 fs2 r3 where "returncode r1 = 0" "returncode r2 = 0"
      "path_exists fs2 (arg_input a)" "returncode r3 = 0"
      "r = Inl (OSError ''FileNotFoundError'' ''trim_neck.sh'')"
      "trace s' = preamble E a fs2 r1 r2 @
         [Ran (reorient_cmd (arg_input a) (scratch_dir E)) r3,
          SpawnFailed (trim_cmd (scratch_dir E))]"
  | (trim_nonzero) r1 r2 fs2 r3 r4 where "returncode r1 = 0" "returncode r2 = 0"
      "path_exists fs2 (arg_input a)" "returncode r3 = 0" "returncode r4 \<noteq> 0"
      "r = Inl (PipelineError (''Error running command: '' @
              str_join '' '' (trim_cmd (scratch_dir E))))"
      "trace s' = preamble E a fs2 r1 r2 @
         Ran (reorient_cmd (arg_input a) (scratch_dir E)) r3 #
         Ran (trim_cmd (scratch_dir E)) r4 # report (trim_cmd (scratch_dir E)) r4"
  | (pad_launch) r1 r2 fs2 r3 r4 where "returncode r1 = 0" "returncode r2 = 0"
      "path_exists fs2 (arg_input a)" "returncode r3 = 0" "returncode r4 = 0"
      "r = Inl (OSError ''FileNotFoundError'' ''c3d'')"
      "trace s' = preamble E a fs2 r1 r2 @
         [Ran (reorient_cmd (arg_input a) (scratch_dir E)) r3,
          Ran (trim_cmd (scratch_dir E)) r4, SpawnFailed (pad_cmd (scratch_dir E) 10)]"
  | (pad_nonzero) r1 r2 fs2 r3 r4 r5 where "returncode r1 = 0" "returncode r2 = 0"
      "path_exists fs2 (arg_input a)" "returncode r3 = 0" "returncode r4 = 0"
      "returncode r5 \<noteq> 0"
      "r = Inl (PipelineError (''Error running command: '' @
              str_join '' '' (pad_cmd (scratch_dir E) 10)))"
      "trace s' = preamble E a fs2 r1 r2 @
         Ran (reorient_cmd (arg_input a) (scratch_dir E)) r3 #
         Ran (trim_cmd (scratch_dir E)) r4 #
         Ran (pad_cmd (scratch_dir E) 10) r5 # report (pad_cmd (scratch_dir E) 10) r5"
  | (copy_failed) r1 r2 fs2 r3 r4 r5 k p where "returncode r1 = 0" "returncode r2 = 0"
      "path_exists fs2 (arg_input a)"
      "returncode r3 = 0" "returncode r4 = 0" "returncode r5 = 0"
      "r = Inl (OSError k p)"
      "trace s' = preamble E a fs2 r1 r2 @
         [Ran (reorient_cmd (arg_input a) (scratch_dir E)) r3, Ran (trim_cmd (scratch_dir E)) r4,
          Ran (pad_cmd (scratch_dir E) 10) r5, CopyFile (trimmed_path E) (arg_output a) False]"
      "\<not> (files (fsys s') (trimmed_path E) \<noteq> None \<and> writable_file (fsys s') (arg_output a)
          \<and> trimmed_path E \<noteq> arg_output a)"
  | (copy_done) r1 r2 fs2 r3 r4 r5 where "returncode r1 = 0" "returncode r2 = 0"
      "path_exists fs2 (arg_input a)"
      "returncode r3 = 0" "returncode r4 = 0" "returncode r5 = 0"
      "r = Inr ()"
      "trace s' = preamble E a fs2 r1 r2 @
         [Ran (reorient_cmd (arg_input a) (scratch_dir E)) r3, Ran (trim_cmd (scratch_dir E)) r4,
          Ran (pad_cmd (scratch_dir E) 10) r5, CopyFile (trimmed_path E) (arg_output a) True]"
      "files (fsys s') (trimmed_path E) \<noteq> None"
      "files (fsys s') (arg_output a) = files (fsys s') (trimmed_path E)"
proof -
  let ?c1 = "reorient_cmd (arg_input a) (scratch_dir E)" and ?c2 = "trim_cmd (scratch_dir E)"
    and ?c3 = "pad_cmd (scratch_dir E) 10"
  have [simp]: "padding (Some 10) = 10" by (simp add: padding_def)
  from run show ?thesis
  proof (cases rule: main_cases)
    case (pipeline r1 r2 fs2 s3)
    note pre = pipeline(1-3)
    from pipeline(6) show ?thesis
    proof (cases rule: seqE)
      case (raised e)
      from raised(1) pipeline(5) show ?thesis
      proof (cases rule: trim_neck_quietE)
        case launch1
        show ?thesis
          by (rule reorient_launch [of r1 r2 fs2])
            (use pre raised launch1 pipeline(4) in auto)
      next
        case (nonzero1 x1)
        show ?thesis
          by (rule reorient_nonzero [of r1 r2 fs2 x1])
            (use pre raised nonzero1 pipeline(4) in auto)
      next
        case (launch2 x1)
        show ?thesis
          by (rule trim_launch [of r1 r2 fs2 x1])
            (use pre raised launch2 pipeline(4) in auto)
      next
        case (nonzero2 x1 x2)
        show ?thesis
          by (rule trim_nonzero [of r1 r2 fs2 x1 x2])
            (use pre raised nonzero2 pipeline(4) in auto)
      next
        case (launch3 x1 x2)
        show ?thesis
          by (rule pad_launch [of r1 r2 fs2 x1 x2])
            (use pre raised launch3 pipeline(4) in auto)
      next
        case (nonzero3 x1 x2 x3)
        show ?thesis
          by (rule pad_nonzero [of r1 r2 fs2 x1 x2 x3])
            (use pre raised nonzero3 pipeline(4) in auto)
      next
        case (finished x1 x2 x3)
        with raised show ?thesis by simp
      qed
    next
      case (went_on trimmed s4)
      from went_on(1) pipeline(5) obtain x1 x2 x3 where
        ok: "returncode x1 = 0" "returncode x2 = 0" "returncode x3 = 0"
        and tr: "trimmed = trimmed_path E"
        and t4: "trace s4 = trace s3 @ [Ran ?c1 x1, Ran ?c2 x2, Ran ?c3 x3]"
      proof (cases rule: trim_neck_quietE)
        case (finished x1 x2 x3)
        show ?thesis
          by (rule that [of x1 x2 x3]) (use finished in \<open>auto simp: trimmed_path_def\<close>)
      qed auto
      from went_on(2) show ?thesis
      proof (cases rule: shutil_copyfileE)
        case (failed k p)
        show ?thesis
          by (rule copy_failed [of r1 r2 fs2 x1 x2 x3 k p])
            (use pre ok failed tr t4 pipeline(4) in auto)
      next
        case (copied bytes)
        show ?thesis
          by (rule copy_done [of r1 r2 fs2 x1 x2 x3])
            (use pre ok copied tr t4 pipeline(4) in auto)
      qed
    qed
  qed (use that in blast)+
qed

lemma script_cases:
  assumes run: "script E a fs = (st, s')"
  obtains
    (c3d_launch) "st = 1"
      "trace s' = [SpawnFailed [''c3d'', ''-h'']]
         @ [Traceback (OSError ''FileNotFoundError'' ''c3d'')]"
  | (c3d_nonzero) r1 where "returncode r1 \<noteq> 0" "st = 1"
      "trace s' = Ran [''c3d'', ''-h''] r1 # report [''c3d'', ''-h''] r1
                  @ [Print ''Could not run c3d, check PATH'']"
  | (sh_launch) r1 where "returncode r1 = 0"
      "st = 1"
      "trace s' = [Ran [''c3d'', ''-h''] r1, SpawnFailed [''trim_neck.sh'', ''-h'']]
         @ [Traceback (OSError ''FileNotFoundError'' ''trim_neck.sh'')]"
  | (sh_nonzero) r1 r2 where "returncode r1 = 0" "returncode r2 \<noteq> 0" "st = 1"
      "trace s' = Ran [''c3d'', ''-h''] r1 # Ran [''trim_neck.sh'', ''-h''] r2
                  # report [''trim_neck.sh'', ''-h''] r2
                  @ [Print ''Could not run trim_neck.sh, check PATH'']"
  | (no_input) r1 r2 where "returncode r1 = 0" "returncode r2 = 0" "st = 1"
      "trace s' = [Ran [''c3d'', ''-h''] r1, Ran [''trim_neck.sh'', ''-h''] r2,
                   TempDir (scratch_dir E), Exists (arg_input a) False,
                   Print (''Input image '' @ arg_input a @ '' does not exist'')]"
  | (reorient_launch) r1 r2 fs2 where "returncode r1 = 0" "returncode r2 = 0"
      "path_exists fs2 (arg_input a)"
      "st = 1"
      "trace s' = preamble E a fs2 r1 r2 @
         [SpawnFailed (reorient_cmd (arg_input a) (scratch_dir E))]
         @ [Traceback (OSError ''FileNotFoundError'' ''c3d'')]"
  | (reorient_nonzero) r1 r2 fs2 r3 where "returncode r1 = 0" "returncode r2 = 0"
      "path_exists fs2 (arg_input a)" "returncode r3 \<noteq> 0"
      "st = 1"
      "trace s' = preamble E a fs2 r1 r2 @
         Ran (reorient_cmd (arg_input a) (scratch_dir E)) r3 #
         report (reorient_cmd (arg_input a) (scratch_dir E)) r3
         @ [Traceback (PipelineError (''Error running command: '' @ str_join '' '' (reorient_cmd (arg_input a) (scratch_dir E))))]"
  | (trim_launch) r1 r2 fs2 r3 where "returncode r1 = 0" "returncode r2 = 0"
      "path_exists fs2 (arg_input a)" "returncode r3 = 0"
      "st = 1"
      "trace s' = preamble E a fs2 r1 r2 @
         [Ran (reorient_cmd (arg_input a) (scratch_dir E)) r3,
          SpawnFailed (trim_cmd (scratch_dir E))]
         @ [Traceback (OSError ''FileNotFoundError'' ''trim_neck.sh'')]"
  | (trim_nonzero) r1 r2 fs2 r3 r4 where "returncode r1 = 0" "returncode r2 = 0"
      "path_exists fs2 (arg_input a)" "returncode r3 = 0" "returncode r4 \<noteq> 0"
      "st = 1"
      "trace s' = preamble E a fs2 r1 r2 @
         Ran (reorient_cmd (arg_input a) (scratch_dir E)) r3 #
         Ran (trim_cmd (scratch_dir E)) r4 # report (trim_cmd (scratch_dir E)) r4
         @ [Traceback (PipelineError (''Error running command: '' @ str_join '' '' (trim_cmd (scratch_dir E))))]"
  | (pad_launch) r1 r2 fs2 r3 r4 where "returncode r1 = 0" "returncode r2 = 0"
      "path_exists fs2 (arg_input a)" "returncode r3 = 0" "returncode r4 = 0"
      "st = 1"
      "trace s' = preamble E a fs2 r1 r2 @
         [Ran (reorient_cmd (arg_input a) (scratch_dir E)) r3,
          Ran (trim_cmd (scratch_dir E)) r4, SpawnFailed (pad_cmd (scratch_dir E) 10)]
         @ [Traceback (OSError ''FileNotFoundError'' ''c3d'')]"
  | (pad_nonzero) r1 r2 fs2 r3 r4 r5 where "returncode r1 = 0" "returncode r2 = 0"
      "path_exists fs2 (arg_input a)" "returncode r3 = 0" "returncode r4 = 0"
      "returncode r5 \<noteq> 0"
      "st = 1"
      "trace s' = preamble E a fs2 r1 r2 @
         Ran (reorient_cmd (arg_input a) (scratch_dir E)) r3 #
         Ran (trim_cmd (scratch_dir E)) r4 #
         Ran (pad_cmd (scratch_dir E) 10) r5 # report (pad_cmd (scratch_dir E) 10) r5
         @ [Traceback (PipelineError (''Error running command: '' @ str_join '' '' (pad_cmd (scratch_dir E) 10)))]"
  | (copy_failed) r1 r2 fs2 r3 r4 r5 k p where "returncode r1 = 0" "returncode r2 = 0"
      "path_exists fs2 (arg_input a)"
      "returncode r3 = 0" "returncode r4 = 0" "returncode r5 = 0"
      "st = 1"
      "trace s' = preamble E a fs2 r1 r2 @
         [Ran (reorient_cmd (arg_input a) (scratch_dir E)) r3, Ran (trim_cmd (scratch_dir E)) r4,
          Ran (pad_cmd (scratch_dir E) 10) r5, CopyFile (trimmed_path E) (arg_output a) False]
         @ [Traceback (OSError k p)]"
      "\<not> (files (fsys s') (trimmed_path E) \<noteq> None \<and> writable_file (fsys s') (arg_output a)
          \<and> trimmed_path E \<noteq> arg_output a)"
  | (copy_done) r1 r2 fs2 r3 r4 r5 where "returncode r1 = 0" "returncode r2 = 0"
      "path_exists fs2 (arg_input a)"
      "returncode r3 = 0" "returncode r4 = 0" "returncode r5 = 0"
      "st = 0"
      "trace s' = preamble E a fs2 r1 r2 @
         [Ran (reorient_cmd (arg_input a) (scratch_dir E)) r3, Ran (trim_cmd (scratch_dir E)) r4,
          Ran (pad_cmd (scratch_dir E) 10) r5, CopyFile (trimmed_path E) (arg_output a) True]"
      "files (fsys s') (trimmed_path E) \<noteq> None"
      "files (fsys s') (arg_output a) = files (fsys s') (trimmed_path E)"
proof -
  from run obtain res sm where m: "main E a (initial fs) = (res, sm)"
    and st: "st = exit_status res" and tr: "trace s' = trace sm @ uncaught res"
    and fs: "fsys s' = fsys sm"
    by (rule scriptE)
  from m show ?thesis
  proof (cases rule: cli_cases)
    case c3d_launch
    show ?thesis by (rule that(1)) (use c3d_launch st tr in simp_all)
  next
    case (c3d_nonzero r1)
    show ?thesis by (rule that(2) [of r1]) (use c3d_nonzero st tr in simp_all)
  next
    case (sh_launch r1)
    show ?thesis by (rule that(3) [of r1]) (use sh_launch st tr in simp_all)
  next
    case (sh_nonzero r1 r2)
    show ?thesis by (rule that(4) [of r1 r2]) (use sh_nonzero st tr in simp_all)
  next
    case (no_input r1 r2)
    show ?thesis by (rule that(5) [of r1 r2]) (use no_input st tr in simp_all)
  next
    case (reorient_launch r1 r2 fs2)
    show ?thesis by (rule that(6) [of r1 r2 fs2]) (use reorient_launch st tr in simp_all)
  next
    case (reorient_nonzero r1 r2 fs2 r3)
    show ?thesis by (rule that(7) [of r1 r2 fs2 r3]) (use reorient_nonzero st tr in simp_all)
  next
    case (trim_launch r1 r2 fs2 r3)
    show ?thesis by (rule that(8) [of r1 r2 fs2 r3]) (use trim_launch st tr in simp_all)
  next
    case (trim_nonzero r1 r2 fs2 r3 r4)
    show ?thesis by (rule that(9) [of r1 r2 fs2 r3 r4]) (use trim_nonzero st tr in simp_all)
  next
    case (pad_launch r1 r2 fs2 r3 r4)
    show ?thesis by (rule that(10) [of r1 r2 fs2 r3 r4]) (use pad_launch st tr in simp_all)
  next
    case (pad_nonzero r1 r2 fs2 r3 r4 r5)
    show ?thesis by (rule that(11) [of r1 r2 fs2 r3 r4 r5]) (use pad_nonzero st tr in simp_all)
  next
    case (copy_failed r1 r2 fs2 r3 r4 r5 k p)
    show ?thesis
      by (rule that(12) [of r1 r2 fs2 r3 r4 r5 k p]) (use copy_failed st tr fs in simp_all)
  next
    case (copy_done r1 r2 fs2 r3 r4 r5)
    show ?thesis
      by (rule that(13) [of r1 r2 fs2 r3 r4 r5]) (use copy_done st tr fs in simp_all)
  qed
qed

subsection \<open>The verbosity flag is never written\<close>

lemma keeps_flag_ret: "keeps_flag (ret x)"
  and keeps_flag_raise: "keeps_flag (raise e)"
  and keeps_flag_emit: "keeps_flag (emit ev)"
  and keeps_flag_get_verbose: "keeps_flag get_verbose"
  and keeps_flag_index0: "keeps_flag (index0 xs)"
  by (simp_all add: keeps_flag_def ret_def raise_def emit_def get_verbose_def index0_def
      split: list.splits)

lemma keeps_flag_seq:
  "keeps_flag m \<Longrightarrow> (\<And>x. keeps_flag (f x)) \<Longrightarrow> keeps_flag (seq m f)"
proof -
  assume m: "keeps_flag m" and f: "\<And>x. keeps_flag (f x)"
  show ?thesis
    unfolding keeps_flag_def
  proof
    fix s
    obtain r s1 where ms: "m s = (r, s1)" by (cases "m s")
    from m have "verbose (snd (m s)) = verbose s" by (simp add: keeps_flag_def)
    with ms have v1: "verbose s1 = verbose s" by simp
    show "verbose (snd (seq m f s)) = verbose s"
    proof (cases r)
      case (Inl e)
      with ms v1 show ?thesis by (simp add: seq_def)
    next
      case (Inr x)
      from f [of x] have "verbose (snd (f x s1)) = verbose s1" by (simp add: keeps_flag_def)
      with Inr ms v1 show ?thesis by (simp add: seq_def)
    qed
  qed
qed

lemma keeps_flag_except:
  "keeps_flag m \<Longrightarrow> keeps_flag h \<Longrightarrow> keeps_flag (except_PipelineError m h)"
proof -
  assume m: "keeps_flag m" and h: "keeps_flag h"
  show ?thesis
    unfolding keeps_flag_def
  proof
    fix s
    obtain r s1 where ms: "m s = (r, s1)" by (cases "m s")
    from m have "verbose (snd (m s)) = verbose s" by (simp add: keeps_flag_def)
    with ms have v1: "verbose s1 = verbose s" by simp
    from h have "verbose (snd (h s1)) = verbose s1" by (simp add: keeps_flag_def)
    with ms v1 show "verbose (snd (except_PipelineError m h s)) = verbose s"
      by (simp add: except_PipelineError_def split: sum.splits exc.splits)
  qed
qed

lemma keeps_flag_if:
  "keeps_flag m \<Longrightarrow> keeps_flag n \<Longrightarrow> keeps_flag (if b then m else n)"
  by simp

lemma keeps_flag_lib:
  "keeps_flag (subprocess_run E cmd)" "keeps_flag (os_path_exists p)"
  "keeps_flag (os_makedirs d)" "keeps_flag (shutil_copyfile src dst)"
  "keeps_flag (TemporaryDirectory E sfx)"
  by (simp_all add: keeps_flag_def subprocess_run_def os_path_exists_def os_makedirs_def
      shutil_copyfile_def TemporaryDirectory_def Let_def split: list.splits option.splits)

lemmas keeps_flag_intros =
  keeps_flag_seq keeps_flag_except keeps_flag_if keeps_flag_ret keeps_flag_raise
  keeps_flag_emit keeps_flag_get_verbose keeps_flag_index0 keeps_flag_lib

lemma keeps_flag_run_command: "keeps_flag (run_command E cmd)"
  unfolding run_command_def print_def print_stack_def
  by (intro keeps_flag_intros)

lemma keeps_flag_trim_neck: "keeps_flag (trim_neck E img wd given)"
  unfolding trim_neck_def Let_def
  by (intro keeps_flag_intros keeps_flag_run_command)

lemma keeps_flag_main: "keeps_flag (main E a)"
  unfolding main_def Let_def print_def sys_exit_def
  by (intro keeps_flag_intros keeps_flag_run_command keeps_flag_trim_neck)

subsection \<open>Facts about records\<close>

lemma after_failure:
  assumes tr: "tr = oks @ Ran c' r' # rest"
    and oks: "\<forall>c r. Ran c r \<in> set oks \<longrightarrow> returncode r = 0"
    and rest: "\<forall>c r. Ran c r \<notin> set rest"
    and mem: "Ran c r \<in> set tr" and nz: "returncode r \<noteq> 0"
  shows "Ran c r = Ran c' r' \<and> events_after (Ran c r) tr = rest"
proof -
  from mem tr oks rest nz have eq: "Ran c r = Ran c' r'" and notin: "Ran c r \<notin> set oks"
    by auto
  from notin have "dropWhile (\<lambda>x. x \<noteq> Ran c r) (oks @ Ran c r # rest) = Ran c r # rest"
    by (simp add: dropWhile_append)
  with eq tr show ?thesis by (simp add: events_after_def)
qed

lemma preamble_ok:
  "returncode r1 = 0 \<Longrightarrow> returncode r2 = 0 \<Longrightarrow> Ran c r \<in> set (preamble E a fs2 r1 r2) \<Longrightarrow> returncode r = 0"
  by (auto simp: preamble_def dir_events_def split: if_splits)

lemma preamble_no_copy: "CopyFile x y b \<notin> set (preamble E a fs2 r1 r2)"
  by (auto simp: preamble_def dir_events_def)

lemma report_console: "\<forall>e\<in>set (report c r). is_console e" "Ran c' r' \<notin> set (report c r)"
  "CopyFile x y b \<notin> set (report c r)"
  by (simp_all add: report_def)

lemma statuses_append [simp]: "statuses (xs @ ys) = statuses xs @ statuses ys"
  by (induction xs rule: statuses.induct) simp_all


lemma statuses_report [simp]: "statuses (report c r) = []"
  by (simp add: report_def)

lemma mem_dropWhile: "x \<in> set ys \<Longrightarrow> \<not> P x \<Longrightarrow> x \<in> set (dropWhile P ys)"
  by (induction ys) auto

lemma dirname_empty_iff: "os_path_dirname p = [] \<longleftrightarrow> CHR ''/'' \<notin> set p"
proof -
  let ?head = "rev (dropWhile (\<lambda>c. c \<noteq> CHR ''/'') (rev p))"
  have head: "?head = [] \<longleftrightarrow> CHR ''/'' \<notin> set p"
    by (auto simp: dropWhile_eq_Nil_conv)
  show ?thesis
  proof (cases "?head = []")
    case True
    with head show ?thesis by (simp add: os_path_dirname_def)
  next
    case False
    show ?thesis
    proof (cases "list_all (\<lambda>c. c = CHR ''/'') ?head")
      case True
      with False head show ?thesis by (simp add: os_path_dirname_def)
    next
      case all: False
      then obtain c where c: "c \<in> set ?head" "c \<noteq> CHR ''/''"
        by (auto simp: list_all_iff)
      then have "c \<in> set (rstrip_slash ?head)"
        unfolding rstrip_slash_def set_rev
        by (intro mem_dropWhile) simp_all
      then have "rstrip_slash ?head \<noteq> []" by auto
      with False all head show ?thesis by (simp add: os_path_dirname_def Let_def)
    qed
  qed
qed

lemma preamble_spawned [simp]:
  "spawned (preamble E a fs2 r1 r2) = [[''c3d'', ''-h''], [''trim_neck.sh'', ''-h'']]"
  by (simp add: preamble_def dir_events_def)

lemma preamble_missing:
  "Exists p False \<in> set (preamble E a fs2 r1 r2) \<Longrightarrow> \<not> path_exists fs2 p"
  by (auto simp: preamble_def dir_events_def split: if_splits)

lemma preamble_makedirs:
  "MakeDirs d ok \<in> set (preamble E a fs2 r1 r2) \<Longrightarrow>
     d = os_path_dirname (arg_output a) \<and> d \<noteq> [] \<and> ok"
  by (auto simp: preamble_def dir_events_def split: if_splits)

lemma report_spawned [simp]: "spawned (report c r) = []"
  by (simp add: report_def)

lemma report_no_makedirs [simp]: "MakeDirs d ok \<notin> set (report c r)"
  "Exists p b \<notin> set (report c r)"
  by (simp_all add: report_def)

lemma cmd_lengths [simp]:
  "reorient_cmd img wd \<noteq> [''c3d'', ''-h'']" "reorient_cmd img wd \<noteq> [''trim_neck.sh'', ''-h'']"
  "trim_cmd wd \<noteq> [''c3d'', ''-h'']" "trim_cmd wd \<noteq> [''trim_neck.sh'', ''-h'']"
  "pad_cmd wd P \<noteq> [''c3d'', ''-h'']" "pad_cmd wd P \<noteq> [''trim_neck.sh'', ''-h'']"
  "[''c3d'', ''-h''] \<noteq> reorient_cmd img wd" "[''trim_neck.sh'', ''-h''] \<noteq> reorient_cmd img wd"
  "[''c3d'', ''-h''] \<noteq> trim_cmd wd" "[''trim_neck.sh'', ''-h''] \<noteq> trim_cmd wd"
  "[''c3d'', ''-h''] \<noteq> pad_cmd wd P" "[''trim_neck.sh'', ''-h''] \<noteq> pad_cmd wd P"
  by (simp_all add: reorient_cmd_def trim_cmd_def pad_cmd_def)

lemma preamble_creates:
  assumes "Exists d False \<in> set (preamble E a fs2 r1 r2)" and "d = os_path_dirname (arg_output a)"
  shows "preamble E a fs2 r1 r2 =
     [Ran [''c3d'', ''-h''] r1, Ran [''trim_neck.sh'', ''-h''] r2,
      TempDir (scratch_dir E), Exists (arg_input a) True, Exists d False, MakeDirs d True]"
  using assms by (auto simp: preamble_def dir_events_def split: if_splits)

lemma preamble_bare:
  "os_path_dirname (arg_output a) = [] \<Longrightarrow>
   preamble E a fs2 r1 r2 =
     [Ran [''c3d'', ''-h''] r1, Ran [''trim_neck.sh'', ''-h''] r2,
      TempDir (scratch_dir E), Exists (arg_input a) True]"
  by (simp add: preamble_def dir_events_def)

lemma events_after_inside:
  "e \<in> set xs \<Longrightarrow> events_after e (xs @ ys) = events_after e xs @ ys"
proof -
  assume e: "e \<in> set xs"
  then have "dropWhile (\<lambda>x. x \<noteq> e) xs \<noteq> []" by (auto simp: dropWhile_eq_Nil_conv)
  with e show ?thesis
    by (simp add: events_after_def dropWhile_append1)
qed

lemma events_after_subset: "set (events_after e xs) \<subseteq> set xs"
  unfolding events_after_def
  by (metis list.set_sel(2) set_dropWhileD subsetI tl_Nil)

lemma next_event_quiet:
  assumes mem: "e \<in> set xs" and quiet: "list_all (\<lambda>x. \<not> is_console x) xs"
    and y: "\<not> is_console y"
  shows "list_all (\<lambda>x. \<not> is_console x) (take 1 (events_after e (xs @ y # ys)))"
proof -
  from events_after_subset [of e xs] quiet
  have "list_all (\<lambda>x. \<not> is_console x) (events_after e xs)"
    by (auto simp: list_all_iff)
  with y have "list_all (\<lambda>x. \<not> is_console x) (events_after e xs @ [y])" by simp
  moreover have "take 1 (events_after e (xs @ y # ys)) = take 1 (events_after e xs @ [y])"
    by (cases "events_after e xs") (simp_all add: events_after_inside [OF mem])
  ultimately show ?thesis
    by (metis append_take_drop_id list_all_append)
qed

lemma spawned_console: "list_all is_console xs \<Longrightarrow> spawned xs = []"
  by (induction xs rule: spawned.induct) simp_all

lemma dropWhile_quiet:
  "list_all (\<lambda>x. \<not> is_console x) xs \<Longrightarrow>
   dropWhile (\<lambda>x. \<not> is_console x) (xs @ ys) = dropWhile (\<lambda>x. \<not> is_console x) ys"
  by (simp add: dropWhile_append list_all_iff)

lemma report_is_console: "list_all is_console (report c r)"
  by (simp add: report_def)

lemma report_4: "take 4 (report c r @ es) = report c r"
  by (simp add: report_def)

lemma preamble_quiet: "list_all (\<lambda>x. \<not> is_console x) (preamble E a fs2 r1 r2)"
  by (simp add: preamble_def dir_events_def)

lemma quiet_shape:
  assumes tr: "tr = xs @ y # prints"
    and xs: "list_all (\<lambda>x. \<not> is_console x) xs" "\<forall>c r. Ran c r \<in> set xs \<longrightarrow> returncode r = 0"
    and y: "\<not> is_console y" "\<forall>c r. y \<noteq> Ran c r"
    and prints: "list_all is_console prints"
  shows "quiet_record res tr"
  unfolding quiet_record_def
proof (intro conjI allI impI)
  from xs(1) y(1) have "dropWhile (\<lambda>e. \<not> is_console e) tr = dropWhile (\<lambda>e. \<not> is_console e) prints"
    unfolding tr by (simp add: dropWhile_quiet)
  moreover have "list_all is_console (dropWhile (\<lambda>e. \<not> is_console e) prints)"
    using prints by (metis (mono_tags, lifting) list_all_iff set_dropWhileD)
  ultimately show "spawned (dropWhile (\<lambda>e. \<not> is_console e) tr) = []"
    by (simp add: spawned_console)
next
  fix c r
  assume mem: "Ran c r \<in> set tr"
  have "Ran c r \<notin> set prints" using prints by (auto simp: list_all_iff)
  with mem y(2) have in_xs: "Ran c r \<in> set xs" unfolding tr by auto
  with xs(2) have "returncode r = 0" by blast
  moreover from next_event_quiet [OF in_xs xs(1) y(1)]
  have "list_all (\<lambda>e. \<not> is_console e) (take 1 (events_after (Ran c r) tr))"
    unfolding tr .
  ultimately show "if returncode r = 0
           then list_all (\<lambda>e. \<not> is_console e) (take 1 (events_after (Ran c r) tr))
           else take 4 (events_after (Ran c r) tr) = report c r
                \<and> res \<in> {Inl (PipelineError (''Error running command: '' @ str_join '' '' c)),
                           Inl (SystemExit 1)}"
    by simp
qed

lemma failure_shape:
  assumes tr: "tr = xs @ Ran c' r' # report c' r' @ tail"
    and xs: "list_all (\<lambda>x. \<not> is_console x) xs" "\<forall>c r. Ran c r \<in> set xs \<longrightarrow> returncode r = 0"
    and nz: "returncode r' \<noteq> 0"
    and tail: "list_all is_console tail"
    and res: "res \<in> {Inl (PipelineError (''Error running command: '' @ str_join '' '' c')),
                      Inl (SystemExit 1)}"
  shows "quiet_record res tr"
  unfolding quiet_record_def
proof (intro conjI allI impI)
  have "dropWhile (\<lambda>e. \<not> is_console e) tr = report c' r' @ tail"
    unfolding tr using xs(1) by (simp add: dropWhile_quiet report_def)
  with tail show "spawned (dropWhile (\<lambda>e. \<not> is_console e) tr) = []"
    by (simp add: spawned_console report_is_console)
next
  fix c r
  assume mem: "Ran c r \<in> set tr"
  have no_ran: "\<forall>c r. Ran c r \<notin> set (report c' r' @ tail)"
    using tail by (auto simp: list_all_iff report_def)
  show "if returncode r = 0
           then list_all (\<lambda>e. \<not> is_console e) (take 1 (events_after (Ran c r) tr))
           else take 4 (events_after (Ran c r) tr) = report c r
                \<and> res \<in> {Inl (PipelineError (''Error running command: '' @ str_join '' '' c)),
                           Inl (SystemExit 1)}"
  proof (cases "returncode r = 0")
    case True
    with mem nz no_ran have in_xs: "Ran c r \<in> set xs" unfolding tr by auto
    from next_event_quiet [OF in_xs xs(1), of "Ran c' r'" "report c' r' @ tail"] True
    show ?thesis unfolding tr by simp
  next
    case False
    from after_failure [OF tr xs(2) no_ran mem False]
    have "Ran c r = Ran c' r'" "events_after (Ran c r) tr = report c' r' @ tail" by blast+
    with False res show ?thesis by (simp add: report_4 del: take_append)
  qed
qed

lemma commands_since_append:
  "spawned (trace s') = spawned (trace s) @ cs \<Longrightarrow> commands_since s s' = cs"
  by (simp add: commands_since_def)

lemma show_int_10: "show_int 10 = ''10''"
  by (simp add: show_int_def show_nat.simps)

lemma pad_cmd_10:
  "pad_cmd (scratch_dir E) 10 =
     [''c3d'', trimmed_path E, ''-pad'', ''10x10x10mm'', ''10x10x10mm'', ''0'', ''-o'',
      trimmed_path E]"
  by (simp add: pad_cmd_def trimmed_path_def show_int_10)

lemma third_token [simp]:
  "reorient_cmd img wd ! 2 = ''-swapdim''" "trim_cmd wd ! 2 = ''20''"
  by (simp_all add: reorient_cmd_def trim_cmd_def numeral_2_eq_2)

lemma report_no_failed_spawn [simp]:
  "SpawnFailed c' \<notin> set (report c r)" "Traceback e \<notin> set (report c r)"
  by (simp_all add: report_def)

lemma preamble_no_failed_spawn [simp]: "SpawnFailed c \<notin> set (preamble E a fs2 r1 r2)"
  by (simp add: preamble_def dir_events_def)

lemma preamble_no_traceback [simp]: "Traceback e \<notin> set (preamble E a fs2 r1 r2)"
  by (simp add: preamble_def dir_events_def)

lemma ran_in_script:
  "Ran c r \<in> set (trace (snd (script E a fs)))
     \<longleftrightarrow> Ran c r \<in> set (trace (snd (main E a (initial fs))))"
proof -
  have "Ran c r \<notin> set (uncaught res)" for res
    by (cases res rule: uncaught.cases) simp_all
  then show ?thesis
    by (auto simp: script_def split: prod.splits)
qed

subsection \<open>The sample worlds, run\<close>

lemmas run_defs =
  script_def main_def initial_def trim_neck_def seq_def except_PipelineError_def
  run_command_quiet ret_def raise_def sys_exit_def print_def emit_def TemporaryDirectory_def
  os_path_exists_def os_makedirs_def shutil_copyfile_def Let_def path_exists_def
  os_path_dirname_def rstrip_slash_def os_path_join_def writable_file_def
  show_int_def show_nat.simps report_def padding_def

lemma demo_run:
  "fst (script demo_env demo_args demo_fs) = 0"
  "trace (snd (script demo_env demo_args demo_fs)) =
     [Ran [''c3d'', ''-h''] ok_result, Ran [''trim_neck.sh'', ''-h''] ok_result,
      TempDir ''/tmp/tmpk3f9t1wpreproc.tmpdir'', Exists ''brain_native.nii.gz'' True,
      Exists ''out'' False, MakeDirs ''out'' True,
      Ran [''c3d'', ''brain_native.nii.gz'', ''-swapdim'', ''LPI'', ''-o'',
           ''/tmp/tmpk3f9t1wpreproc.tmpdir/input_reoriented_LPI.nii.gz''] ok_result,
      Ran [''trim_neck.sh'', ''-c'', ''20'', ''-w'', ''/tmp/tmpk3f9t1wpreproc.tmpdir'',
           ''/tmp/tmpk3f9t1wpreproc.tmpdir/input_reoriented_LPI.nii.gz'',
           ''/tmp/tmpk3f9t1wpreproc.tmpdir/T1wNeckTrim.nii.gz''] ok_result,
      Ran [''c3d'', ''/tmp/tmpk3f9t1wpreproc.tmpdir/T1wNeckTrim.nii.gz'', ''-pad'',
           ''10x10x10mm'', ''10x10x10mm'', ''0'', ''-o'',
           ''/tmp/tmpk3f9t1wpreproc.tmpdir/T1wNeckTrim.nii.gz''] ok_result,
      CopyFile ''/tmp/tmpk3f9t1wpreproc.tmpdir/T1wNeckTrim.nii.gz'' ''out/trimmed.nii.gz'' True]"
  "files (fsys (snd (script demo_env demo_args demo_fs))) ''out/trimmed.nii.gz'' = Some ''voxels''"
  by (simp_all add: run_defs demo_env_def demo_args_def demo_fs_def ok_result_def tool_effect_def)

lemma pad_fails_run:
  "fst (script pad_fails_env demo_args demo_fs) = 1"
  "trace (snd (script pad_fails_env demo_args demo_fs)) =
     [Ran [''c3d'', ''-h''] ok_result, Ran [''trim_neck.sh'', ''-h''] ok_result,
      TempDir ''/tmp/tmpk3f9t1wpreproc.tmpdir'', Exists ''brain_native.nii.gz'' True,
      Exists ''out'' False, MakeDirs ''out'' True,
      Ran [''c3d'', ''brain_native.nii.gz'', ''-swapdim'', ''LPI'', ''-o'',
           ''/tmp/tmpk3f9t1wpreproc.tmpdir/input_reoriented_LPI.nii.gz''] ok_result,
      Ran [''trim_neck.sh'', ''-c'', ''20'', ''-w'', ''/tmp/tmpk3f9t1wpreproc.tmpdir'',
           ''/tmp/tmpk3f9t1wpreproc.tmpdir/input_reoriented_LPI.nii.gz'',
           ''/tmp/tmpk3f9t1wpreproc.tmpdir/T1wNeckTrim.nii.gz''] ok_result,
      Ran [''c3d'', ''/tmp/tmpk3f9t1wpreproc.tmpdir/T1wNeckTrim.nii.gz'', ''-pad'',
           ''10x10x10mm'', ''10x10x10mm'', ''0'', ''-o'',
           ''/tmp/tmpk3f9t1wpreproc.tmpdir/T1wNeckTrim.nii.gz''] no_space,
      Print ''Error running command: c3d /tmp/tmpk3f9t1wpreproc.tmpdir/T1wNeckTrim.nii.gz -pad 10x10x10mm 10x10x10mm 0 -o /tmp/tmpk3f9t1wpreproc.tmpdir/T1wNeckTrim.nii.gz'',
      PrintStack,
      Print (''command stdout:'' @ [CHR 0x0A]),
      Print (''command stderr:'' @ [CHR 0x0A] @ ''no space left''),
      Traceback (PipelineError ''Error running command: c3d /tmp/tmpk3f9t1wpreproc.tmpdir/T1wNeckTrim.nii.gz -pad 10x10x10mm 10x10x10mm 0 -o /tmp/tmpk3f9t1wpreproc.tmpdir/T1wNeckTrim.nii.gz'')]"
  by (simp_all add: run_defs pad_fails_env_def demo_args_def demo_fs_def ok_result_def
      no_space_def tool_effect_def)


lemma no_input_run:
  "fst (script demo_env demo_args empty_fs) = 1"
  "trace (snd (script demo_env demo_args empty_fs)) =
     [Ran [''c3d'', ''-h''] ok_result, Ran [''trim_neck.sh'', ''-h''] ok_result,
      TempDir ''/tmp/tmpk3f9t1wpreproc.tmpdir'', Exists ''brain_native.nii.gz'' False,
      Print ''Input image brain_native.nii.gz does not exist'']"
  by (simp_all add: run_defs demo_env_def demo_args_def empty_fs_def ok_result_def tool_effect_def)

lemma bare_run:
  "fst (script demo_env bare_args demo_fs) = 0"
  "trace (snd (script demo_env bare_args demo_fs)) =
     [Ran [''c3d'', ''-h''] ok_result, Ran [''trim_neck.sh'', ''-h''] ok_result,
      TempDir ''/tmp/tmpk3f9t1wpreproc.tmpdir'', Exists ''brain_native.nii.gz'' True,
      Ran [''c3d'', ''brain_native.nii.gz'', ''-swapdim'', ''LPI'', ''-o'',
           ''/tmp/tmpk3f9t1wpreproc.tmpdir/input_reoriented_LPI.nii.gz''] ok_result,
      Ran [''trim_neck.sh'', ''-c'', ''20'', ''-w'', ''/tmp/tmpk3f9t1wpreproc.tmpdir'',
           ''/tmp/tmpk3f9t1wpreproc.tmpdir/input_reoriented_LPI.nii.gz'',
           ''/tmp/tmpk3f9t1wpreproc.tmpdir/T1wNeckTrim.nii.gz''] ok_result,
      Ran [''c3d'', ''/tmp/tmpk3f9t1wpreproc.tmpdir/T1wNeckTrim.nii.gz'', ''-pad'',
           ''10x10x10mm'', ''10x10x10mm'', ''0'', ''-o'',
           ''/tmp/tmpk3f9t1wpreproc.tmpdir/T1wNeckTrim.nii.gz''] ok_result,
      CopyFile ''/tmp/tmpk3f9t1wpreproc.tmpdir/T1wNeckTrim.nii.gz'' ''trimmed.nii.gz'' True]"
  by (simp_all add: run_defs demo_env_def bare_args_def demo_fs_def ok_result_def tool_effect_def)

lemma demo_pipeline:
  "fst (trim_neck demo_env ''brain_native.nii.gz'' ''/tmp/w'' None (initial demo_fs))
     = Inr ''/tmp/w/T1wNeckTrim.nii.gz''"
  "trace (snd (trim_neck demo_env ''brain_native.nii.gz'' ''/tmp/w'' None (initial demo_fs))) =
     [Ran [''c3d'', ''brain_native.nii.gz'', ''-swapdim'', ''LPI'', ''-o'',
           ''/tmp/w/input_reoriented_LPI.nii.gz''] ok_result,
      Ran [''trim_neck.sh'', ''-c'', ''20'', ''-w'', ''/tmp/w'',
           ''/tmp/w/input_reoriented_LPI.nii.gz'', ''/tmp/w/T1wNeckTrim.nii.gz''] ok_result,
      Ran [''c3d'', ''/tmp/w/T1wNeckTrim.nii.gz'', ''-pad'', ''10x10x10mm'', ''10x10x10mm'',
           ''0'', ''-o'', ''/tmp/w/T1wNeckTrim.nii.gz''] ok_result]"
  by (simp_all add: run_defs demo_env_def demo_fs_def ok_result_def tool_effect_def)

lemma sample_names:
  "arg_input demo_args = ''brain_native.nii.gz''" "arg_output demo_args = ''out/trimmed.nii.gz''"
  "arg_input bare_args = ''brain_native.nii.gz''" "arg_output bare_args = ''trimmed.nii.gz''"
  "arg_input dir_args = ''brain_native.nii.gz''" "arg_output dir_args = ''out''"
  "trimmed_path demo_env = ''/tmp/tmpk3f9t1wpreproc.tmpdir/T1wNeckTrim.nii.gz''"
  by (simp_all add: demo_args_def bare_args_def dir_args_def trimmed_path_def scratch_dir_def
      demo_env_def os_path_join_def)

section \<open>The claims\<close>

text \<open>
  C1. For every command list executed by \<^verbatim>\<open>run_command\<close>, a non-zero exit status of the
  child is supposed to surface the command line and both streams, emit a stack trace and
  raise \<^verbatim>\<open>PipelineError\<close>, for every value of the verbose flag. With the flag set the
  code does not raise: run on \<^verbatim>\<open>['c3d', '-h']\<close> with a child that exits with status
  127, it echoes the command and the streams, prints the error line and the stack trace,
  and then returns the result dictionary as it does after a success.
\<close>

theorem run_command_verbose_returns_on_failure:
  "run_command refusing_env [''c3d'', ''-h''] \<lparr>fsys = demo_fs, verbose = True, trace = []\<rparr> =
     (Inr [''cmd_str'' \<mapsto> ''c3d -h'', ''stderr'' \<mapsto> ''c3d: cannot execute'',
           ''stdout'' \<mapsto> ''''],
      \<lparr>fsys = demo_fs, verbose = True,
       trace = [Print ''--- Running c3d ---'', Print ''c3d -h'',
                Ran [''c3d'', ''-h''] cannot_execute,
                Print ''--- command stdout ---'', Print '''',
                Print ''--- command stderr ---'', Print ''c3d: cannot execute'',
                Print ''--- end c3d ---'',
                Print ''Error running command: c3d -h'', PrintStack]\<rparr>)"
  by (simp add: run_command_verbose refusing_env_def cannot_execute_def)

text \<open>
  C2. If a command of a run of the script exits with a non-zero status (in particular one
  of the three pipeline invocations), then nothing but console output follows it in the
  record of the run, no file copy is attempted, and the process ends with status 1.
\<close>

theorem failed_command_ends_run:
  assumes run: "script E a fs = (st, s')" and ran: "Ran c r \<in> set (trace s')"
    and nonzero: "returncode r \<noteq> 0"
  shows "st = 1 \<and> (\<forall>src dst ok. CopyFile src dst ok \<notin> set (trace s'))
         \<and> (\<forall>e\<in>set (events_after (Ran c r) (trace s')). is_console e)"
proof -
  have stop: ?thesis
    if "st = 1" and "trace s' = oks @ Ran c' r' # rest"
      and "\<forall>c r. Ran c r \<in> set oks \<longrightarrow> returncode r = 0"
      and "\<forall>x y b. CopyFile x y b \<notin> set oks"
      and "\<forall>e\<in>set rest. is_console e"
    for oks c' r' rest
  proof -
    from that(5) have no_ran: "\<forall>c r. Ran c r \<notin> set rest" by auto
    from after_failure [OF that(2,3) no_ran ran nonzero]
    have "events_after (Ran c r) (trace s') = rest" by blast
    moreover from that(5) have "\<forall>x y b. CopyFile x y b \<notin> set rest" by auto
    ultimately show ?thesis using that by auto
  qed
  have fine: ?thesis if "\<forall>c r. Ran c r \<in> set (trace s') \<longrightarrow> returncode r = 0"
    using that ran nonzero by blast
  note [simp] = report_console preamble_no_copy
  from run show ?thesis
  proof (cases rule: script_cases)
    case c3d_launch
    then show ?thesis by (intro fine) simp
  next
    case (c3d_nonzero r1)
    then show ?thesis
      by (intro stop [of "[]" _ _
            "report [''c3d'', ''-h''] r1 @ [Print ''Could not run c3d, check PATH'']"]) auto
  next
    case (sh_launch r1)
    then show ?thesis by (intro fine) simp
  next
    case (sh_nonzero r1 r2)
    then show ?thesis
      by (intro stop [of "[Ran [''c3d'', ''-h''] r1]" _ _
            "report [''trim_neck.sh'', ''-h''] r2
             @ [Print ''Could not run trim_neck.sh, check PATH'']"]) auto
  next
    case (no_input r1 r2)
    then show ?thesis by (intro fine) simp
  next
    case (reorient_launch r1 r2 fs2)
    then show ?thesis by (intro fine) (auto dest: preamble_ok)
  next
    case (reorient_nonzero r1 r2 fs2 r3)
    then show ?thesis
      by (intro stop [of "preamble E a fs2 r1 r2"
            "reorient_cmd (arg_input a) (scratch_dir E)" r3
            "report (reorient_cmd (arg_input a) (scratch_dir E)) r3
             @ [Traceback (PipelineError (''Error running command: '' @
                  str_join '' '' (reorient_cmd (arg_input a) (scratch_dir E))))]"])
        (auto dest: preamble_ok)
  next
    case (trim_launch r1 r2 fs2 r3)
    then show ?thesis by (intro fine) (auto dest: preamble_ok)
  next
    case (trim_nonzero r1 r2 fs2 r3 r4)
    then show ?thesis
      by (intro stop [of
            "preamble E a fs2 r1 r2 @ [Ran (reorient_cmd (arg_input a) (scratch_dir E)) r3]"
            "trim_cmd (scratch_dir E)" r4
            "report (trim_cmd (scratch_dir E)) r4
             @ [Traceback (PipelineError (''Error running command: '' @
                  str_join '' '' (trim_cmd (scratch_dir E))))]"])
        (auto dest: preamble_ok)
  next
    case (pad_launch r1 r2 fs2 r3 r4)
    then show ?thesis by (intro fine) (auto dest: preamble_ok)
  next
    case (pad_nonzero r1 r2 fs2 r3 r4 r5)
    then show ?thesis
      by (intro stop [of
            "preamble E a fs2 r1 r2 @ [Ran (reorient_cmd (arg_input a) (scratch_dir E)) r3,
              Ran (trim_cmd (scratch_dir E)) r4]"
            "pad_cmd (scratch_dir E) 10" r5
            "report (pad_cmd (scratch_dir E) 10) r5
             @ [Traceback (PipelineError (''Error running command: '' @
                  str_join '' '' (pad_cmd (scratch_dir E) 10)))]"])
        (auto dest: preamble_ok)
  next
    case (copy_failed r1 r2 fs2 r3 r4 r5 k p)
    then show ?thesis by (intro fine) (auto dest: preamble_ok)
  next
    case (copy_done r1 r2 fs2 r3 r4 r5)
    then show ?thesis by (intro fine) (auto dest: preamble_ok)
  qed
qed

theorem failed_command_ends_run_witness:
  "returncode no_space \<noteq> 0 \<and>
   fst (script pad_fails_env demo_args demo_fs) = 1 \<and>
   list_all is_console
     (events_after
        (Ran [''c3d'', ''/tmp/tmpk3f9t1wpreproc.tmpdir/T1wNeckTrim.nii.gz'', ''-pad'',
              ''10x10x10mm'', ''10x10x10mm'', ''0'', ''-o'',
              ''/tmp/tmpk3f9t1wpreproc.tmpdir/T1wNeckTrim.nii.gz''] no_space)
        (trace (snd (script pad_fails_env demo_args demo_fs))))"
proof -
  let ?c = "[''c3d'', ''/tmp/tmpk3f9t1wpreproc.tmpdir/T1wNeckTrim.nii.gz'', ''-pad'',
              ''10x10x10mm'', ''10x10x10mm'', ''0'', ''-o'',
              ''/tmp/tmpk3f9t1wpreproc.tmpdir/T1wNeckTrim.nii.gz'']"
  let ?run = "script pad_fails_env demo_args demo_fs"
  have run: "?run = (fst ?run, snd ?run)" by simp
  have mem: "Ran ?c no_space \<in> set (trace (snd ?run))"
    by (simp add: pad_fails_run)
  have nz: "returncode no_space \<noteq> 0" by (simp add: no_space_def)
  from failed_command_ends_run [OF run mem nz] nz show ?thesis
    by (simp add: list_all_iff)
qed




text \<open>
  C4. If a probe of one of the two tools fails (the child exits with a non-zero status, or
  cannot be started at all), or the input path does not exist, then the process exits
  with status 1, and the last thing it does before that is console output: the message of
  the script, or the traceback of the interpreter when the tool could not be started.
  No command but the probes is run, and the script calls neither \<^verbatim>\<open>os.makedirs\<close> nor
  \<^verbatim>\<open>shutil.copyfile\<close>: the only thing it may have created by then is its scratch
  directory, so the output path is neither created nor modified.
\<close>

theorem precondition_failure_exits_1:
  assumes run: "script E a fs = (st, s')"
    and failure:
      "(\<exists>r. Ran [''c3d'', ''-h''] r \<in> set (trace s') \<and> returncode r \<noteq> 0)
       \<or> SpawnFailed [''c3d'', ''-h''] \<in> set (trace s')
       \<or> (\<exists>r. Ran [''trim_neck.sh'', ''-h''] r \<in> set (trace s') \<and> returncode r \<noteq> 0)
       \<or> SpawnFailed [''trim_neck.sh'', ''-h''] \<in> set (trace s')
       \<or> Exists (arg_input a) False \<in> set (trace s')"
  shows "st = 1
     \<and> last (trace s') \<in> {Print ''Could not run c3d, check PATH'',
                          Print ''Could not run trim_neck.sh, check PATH'',
                          Print (''Input image '' @ arg_input a @ '' does not exist''),
                          Traceback (OSError ''FileNotFoundError'' ''c3d''),
                          Traceback (OSError ''FileNotFoundError'' ''trim_neck.sh'')}
     \<and> set (spawned (trace s')) \<subseteq> {[''c3d'', ''-h''], [''trim_neck.sh'', ''-h'']}
     \<and> (\<forall>d ok. MakeDirs d ok \<notin> set (trace s'))
     \<and> (\<forall>x y ok. CopyFile x y ok \<notin> set (trace s'))"
proof -
  have absurd: ?thesis
    if "trace s' = preamble E a fs2 r1 r2 @ rest" and "returncode r1 = 0" and "returncode r2 = 0"
      and "path_exists fs2 (arg_input a)"
      and "\<forall>r. Ran [''c3d'', ''-h''] r \<notin> set rest"
      and "\<forall>r. Ran [''trim_neck.sh'', ''-h''] r \<notin> set rest"
      and "SpawnFailed [''c3d'', ''-h''] \<notin> set rest"
      and "SpawnFailed [''trim_neck.sh'', ''-h''] \<notin> set rest"
      and "\<forall>p b. Exists p b \<notin> set rest"
    for fs2 r1 r2 rest
    using failure that by (auto dest: preamble_ok preamble_missing)
  note [simp] = report_console preamble_no_copy
  from run show ?thesis
  proof (cases rule: script_cases)
    case c3d_launch
    then show ?thesis by simp
  next
    case (c3d_nonzero r1)
    then show ?thesis by (simp add: report_def)
  next
    case (sh_launch r1)
    then show ?thesis by simp
  next
    case (sh_nonzero r1 r2)
    then show ?thesis by (simp add: report_def)
  next
    case (no_input r1 r2)
    then show ?thesis by simp
  next
    case (reorient_launch r1 r2 fs2)
    then show ?thesis by (intro absurd [of fs2 r1 r2]) auto
  next
    case (reorient_nonzero r1 r2 fs2 r3)
    then show ?thesis by (intro absurd [of fs2 r1 r2]) auto
  next
    case (trim_launch r1 r2 fs2 r3)
    then show ?thesis by (intro absurd [of fs2 r1 r2]) auto
  next
    case (trim_nonzero r1 r2 fs2 r3 r4)
    then show ?thesis by (intro absurd [of fs2 r1 r2]) auto
  next
    case (pad_launch r1 r2 fs2 r3 r4)
    then show ?thesis by (intro absurd [of fs2 r1 r2]) auto
  next
    case (pad_nonzero r1 r2 fs2 r3 r4 r5)
    then show ?thesis by (intro absurd [of fs2 r1 r2]) auto
  next
    case (copy_failed r1 r2 fs2 r3 r4 r5 k p)
    then show ?thesis by (intro absurd [of fs2 r1 r2]) auto
  next
    case (copy_done r1 r2 fs2 r3 r4 r5)
    then show ?thesis by (intro absurd [of fs2 r1 r2]) auto
  qed
qed

theorem precondition_failure_exits_1_witness:
  "Exists (arg_input demo_args) False \<in> set (trace (snd (script demo_env demo_args empty_fs))) \<and>
   fst (script demo_env demo_args empty_fs) = 1 \<and>
   last (trace (snd (script demo_env demo_args empty_fs))) =
     Print ''Input image brain_native.nii.gz does not exist'' \<and>
   spawned (trace (snd (script demo_env demo_args empty_fs))) =
     [[''c3d'', ''-h''], [''trim_neck.sh'', ''-h'']]"
proof -
  let ?run = "script demo_env demo_args empty_fs"
  have run: "?run = (fst ?run, snd ?run)" by simp
  have missing: "Exists (arg_input demo_args) False \<in> set (trace (snd ?run))"
    by (simp add: no_input_run sample_names)
  then have failure:
    "(\<exists>r. Ran [''c3d'', ''-h''] r \<in> set (trace (snd ?run)) \<and> returncode r \<noteq> 0)
       \<or> SpawnFailed [''c3d'', ''-h''] \<in> set (trace (snd ?run))
       \<or> (\<exists>r. Ran [''trim_neck.sh'', ''-h''] r \<in> set (trace (snd ?run)) \<and> returncode r \<noteq> 0)
       \<or> SpawnFailed [''trim_neck.sh'', ''-h''] \<in> set (trace (snd ?run))
       \<or> Exists (arg_input demo_args) False \<in> set (trace (snd ?run))"
    by blast
  from precondition_failure_exits_1 [OF run failure] missing show ?thesis
    by (simp add: no_input_run)
qed

text \<open>
  C5. The pipeline is a fixed linear sequence of three commands in which each step reads
  what the step before wrote: the reorient step writes the reoriented image in the working
  directory, the trim step reads it and writes the trimmed image, the pad step reads the
  trimmed image and writes it back to the same path, and \<^verbatim>\<open>trim_neck\<close> returns that
  path. Every run of \<^verbatim>\<open>trim_neck\<close>, whatever the state it starts in, starts these
  commands in this order and stops at the first one that raises; a run that returns has
  started all three.
\<close>

theorem trim_neck_is_a_linear_chain:
  assumes run: "trim_neck E img wd given s = (r, s')"
  shows "(let reoriented = os_path_join wd ''input_reoriented_LPI.nii.gz'';
              trimmed = os_path_join wd ''T1wNeckTrim.nii.gz'';
              mm = show_int (padding given) @ ''x'' @ show_int (padding given) @ ''x''
                   @ show_int (padding given) @ ''mm'';
              step1 = [''c3d'', img, ''-swapdim'', ''LPI'', ''-o'', reoriented];
              step2 = [''trim_neck.sh'', ''-c'', ''20'', ''-w'', wd, reoriented, trimmed];
              step3 = [''c3d'', trimmed, ''-pad'', mm, mm, ''0'', ''-o'', trimmed]
          in commands_since s s' \<in> {[step1], [step1, step2], [step1, step2, step3]}
             \<and> (\<forall>p. r = Inr p \<longrightarrow>
                    commands_since s s' = [step1, step2, step3] \<and> p = trimmed))"
proof -
  from trim_neck_commands [OF run] obtain k where k: "k \<in> {1, 2, 3}"
    and cs: "spawned (trace s') = spawned (trace s)
               @ take k [reorient_cmd img wd, trim_cmd wd, pad_cmd wd (padding given)]"
    and ok: "\<forall>p. r = Inr p \<longrightarrow> k = 3 \<and> p = os_path_join wd ''T1wNeckTrim.nii.gz''"
    by blast
  note since = commands_since_append [OF cs]
  from k consider "k = 1" | "k = 2" | "k = 3" by auto
  then show ?thesis
  proof cases
    case 1
    with since ok show ?thesis
      by (auto simp: Let_def reorient_cmd_def trim_cmd_def pad_cmd_def)
  next
    case 2
    with since ok show ?thesis
      by (auto simp: Let_def reorient_cmd_def trim_cmd_def pad_cmd_def numeral_2_eq_2)
  next
    case 3
    with since ok show ?thesis
      by (auto simp: Let_def reorient_cmd_def trim_cmd_def pad_cmd_def numeral_3_eq_3)
  qed
qed

theorem trim_neck_is_a_linear_chain_witness:
  "fst (trim_neck demo_env ''brain_native.nii.gz'' ''/tmp/w'' None (initial demo_fs))
     = Inr ''/tmp/w/T1wNeckTrim.nii.gz'' \<and>
   commands_since (initial demo_fs)
     (snd (trim_neck demo_env ''brain_native.nii.gz'' ''/tmp/w'' None (initial demo_fs))) =
     [[''c3d'', ''brain_native.nii.gz'', ''-swapdim'', ''LPI'', ''-o'',
       ''/tmp/w/input_reoriented_LPI.nii.gz''],
      [''trim_neck.sh'', ''-c'', ''20'', ''-w'', ''/tmp/w'',
       ''/tmp/w/input_reoriented_LPI.nii.gz'', ''/tmp/w/T1wNeckTrim.nii.gz''],
      [''c3d'', ''/tmp/w/T1wNeckTrim.nii.gz'', ''-pad'', ''10x10x10mm'', ''10x10x10mm'',
       ''0'', ''-o'', ''/tmp/w/T1wNeckTrim.nii.gz'']]"
proof -
  let ?run = "trim_neck demo_env ''brain_native.nii.gz'' ''/tmp/w'' None (initial demo_fs)"
  have run: "?run = (fst ?run, snd ?run)" by simp
  have res: "fst ?run = Inr ''/tmp/w/T1wNeckTrim.nii.gz''" by (rule demo_pipeline)
  have names: "os_path_join ''/tmp/w'' ''input_reoriented_LPI.nii.gz''
                 = ''/tmp/w/input_reoriented_LPI.nii.gz''"
    "os_path_join ''/tmp/w'' ''T1wNeckTrim.nii.gz'' = ''/tmp/w/T1wNeckTrim.nii.gz''"
    "show_int (padding None) = ''10''"
    by (simp_all add: os_path_join_def padding_def show_int_def show_nat.simps)
  from trim_neck_is_a_linear_chain [OF run] res show ?thesis
    by (simp add: Let_def names)
qed

text \<open>
  C6. For every padding \<open>P\<close> given to \<^verbatim>\<open>trim_neck\<close> (10 when none is given), the pad
  invocation is \<^verbatim>\<open>c3d <trimmed> -pad PxPxPmm PxPxPmm 0 -o <trimmed>\<close>: the lower
  and the upper bound are both \<open>P\<close> millimetres in each of the three directions, and
  the fill value is 0. A run that returns has made that invocation. The entry point
  always asks for 10: the only pad invocation of a run of the script is the one with
  \<^verbatim>\<open>10x10x10mm\<close> twice, and a run that exits with status 0 has made it.
\<close>

theorem pad_step_requests_P_mm:
  "(trim_neck E img wd given s = (r, s') \<longrightarrow>
      (let trimmed = os_path_join wd ''T1wNeckTrim.nii.gz'';
           mm = show_int (padding given) @ ''x'' @ show_int (padding given) @ ''x''
                @ show_int (padding given) @ ''mm'';
           pad = [''c3d'', trimmed, ''-pad'', mm, mm, ''0'', ''-o'', trimmed]
       in (\<forall>c\<in>set (commands_since s s'). 2 < length c \<and> c ! 2 = ''-pad'' \<longrightarrow> c = pad)
          \<and> (\<forall>p. r = Inr p \<longrightarrow> pad \<in> set (commands_since s s'))))
   \<and> padding None = 10 \<and> padding (Some P) = P
   \<and> (script E a fs = (st, t') \<longrightarrow>
      (let pad10 = [''c3d'', trimmed_path E, ''-pad'', ''10x10x10mm'', ''10x10x10mm'', ''0'',
                    ''-o'', trimmed_path E]
       in (\<forall>c\<in>set (spawned (trace t')). 2 < length c \<and> c ! 2 = ''-pad'' \<longrightarrow> c = pad10)
          \<and> (st = 0 \<longrightarrow> pad10 \<in> set (spawned (trace t')))))"
proof (intro conjI impI)
  assume run: "trim_neck E img wd given s = (r, s')"
  from trim_neck_commands [OF run] obtain k where k: "k \<in> {1, 2, 3}"
    and cs: "spawned (trace s') = spawned (trace s)
               @ take k [reorient_cmd img wd, trim_cmd wd, pad_cmd wd (padding given)]"
    and ok: "\<forall>p. r = Inr p \<longrightarrow> k = 3 \<and> p = os_path_join wd ''T1wNeckTrim.nii.gz''"
    by blast
  note since = commands_since_append [OF cs]
  from k consider "k = 1" | "k = 2" | "k = 3" by auto
  then show "let trimmed = os_path_join wd ''T1wNeckTrim.nii.gz'';
           mm = show_int (padding given) @ ''x'' @ show_int (padding given) @ ''x''
                @ show_int (padding given) @ ''mm'';
           pad = [''c3d'', trimmed, ''-pad'', mm, mm, ''0'', ''-o'', trimmed]
       in (\<forall>c\<in>set (commands_since s s'). 2 < length c \<and> c ! 2 = ''-pad'' \<longrightarrow> c = pad)
          \<and> (\<forall>p. r = Inr p \<longrightarrow> pad \<in> set (commands_since s s'))"
  proof cases
    case 1
    with since ok show ?thesis by (auto simp: Let_def)
  next
    case 2
    with since ok show ?thesis by (auto simp: Let_def)
  next
    case 3
    with since ok show ?thesis by (auto simp: Let_def pad_cmd_def)
  qed
next
  show "padding None = 10" "padding (Some P) = P" by (simp_all add: padding_def)
next
  assume run: "script E a fs = (st, t')"
  note [simp] = report_spawned
  from run show "let pad10 = [''c3d'', trimmed_path E, ''-pad'', ''10x10x10mm'', ''10x10x10mm'', ''0'',
                    ''-o'', trimmed_path E]
       in (\<forall>c\<in>set (spawned (trace t')). 2 < length c \<and> c ! 2 = ''-pad'' \<longrightarrow> c = pad10)
          \<and> (st = 0 \<longrightarrow> pad10 \<in> set (spawned (trace t')))"
    by (cases rule: script_cases) (auto simp: Let_def pad_cmd_10)
qed

theorem pad_step_requests_P_mm_witness:
  "fst (script demo_env demo_args demo_fs) = 0 \<and>
   [''c3d'', ''/tmp/tmpk3f9t1wpreproc.tmpdir/T1wNeckTrim.nii.gz'', ''-pad'', ''10x10x10mm'',
    ''10x10x10mm'', ''0'', ''-o'', ''/tmp/tmpk3f9t1wpreproc.tmpdir/T1wNeckTrim.nii.gz'']
     \<in> set (spawned (trace (snd (script demo_env demo_args demo_fs)))) \<and>
   fst (trim_neck demo_env ''brain_native.nii.gz'' ''/tmp/w'' (Some 25) (initial demo_fs))
     = Inr ''/tmp/w/T1wNeckTrim.nii.gz'' \<and>
   [''c3d'', ''/tmp/w/T1wNeckTrim.nii.gz'', ''-pad'', ''25x25x25mm'', ''25x25x25mm'', ''0'',
    ''-o'', ''/tmp/w/T1wNeckTrim.nii.gz'']
     \<in> set (commands_since (initial demo_fs)
          (snd (trim_neck demo_env ''brain_native.nii.gz'' ''/tmp/w'' (Some 25) (initial demo_fs))))"
proof -
  let ?run = "script demo_env demo_args demo_fs"
  let ?pipe = "trim_neck demo_env ''brain_native.nii.gz'' ''/tmp/w'' (Some 25) (initial demo_fs)"
  have run: "?run = (fst ?run, snd ?run)" and pipe: "?pipe = (fst ?pipe, snd ?pipe)" by simp_all
  have ok: "fst ?run = 0" by (rule demo_run)
  have res: "fst ?pipe = Inr ''/tmp/w/T1wNeckTrim.nii.gz''"
    by (simp add: run_defs demo_env_def demo_fs_def ok_result_def tool_effect_def)
  have names:
    "trimmed_path demo_env = ''/tmp/tmpk3f9t1wpreproc.tmpdir/T1wNeckTrim.nii.gz''"
    "os_path_join ''/tmp/w'' ''T1wNeckTrim.nii.gz'' = ''/tmp/w/T1wNeckTrim.nii.gz''"
    "show_int (padding (Some 25)) = ''25''"
    by (simp_all add: trimmed_path_def scratch_dir_def demo_env_def os_path_join_def
        padding_def show_int_def show_nat.simps)
  note inst = pad_step_requests_P_mm [of demo_env "''brain_native.nii.gz''" "''/tmp/w''" "Some 25"
      "initial demo_fs" "fst ?pipe" "snd ?pipe" 25 demo_args demo_fs "fst ?run" "snd ?run"]
  from inst run pipe ok res show ?thesis
    by (simp add: Let_def names)
qed

text \<open>
  C7. The trim step invokes the neck-trimming tool exactly once: as soon as a run of
  \<^verbatim>\<open>trim_neck\<close> has started a second command, that command is
  \<^verbatim>\<open>trim_neck.sh -c 20 -w <working_dir> <reoriented> <trimmed>\<close> (the fixed threshold
  20, the working directory as scratch space, the reoriented image as input and the
  trimmed image in the working directory as output), and it is the only command of the
  run whose program is \<^verbatim>\<open>trim_neck.sh\<close>. A run that returns has started it.
\<close>

theorem trim_step_invocation:
  assumes run: "trim_neck E img wd given s = (r, s')"
  shows "(let reoriented = os_path_join wd ''input_reoriented_LPI.nii.gz'';
              trimmed = os_path_join wd ''T1wNeckTrim.nii.gz'';
              trim = [''trim_neck.sh'', ''-c'', ''20'', ''-w'', wd, reoriented, trimmed]
          in filter (\<lambda>c. take 1 c = [''trim_neck.sh'']) (commands_since s s')
               = (if 2 \<le> length (commands_since s s') then [trim] else [])
             \<and> (2 \<le> length (commands_since s s') \<longrightarrow> commands_since s s' ! 1 = trim)
             \<and> (\<forall>p. r = Inr p \<longrightarrow> 2 \<le> length (commands_since s s')))"
proof -
  from trim_neck_commands [OF run] obtain k where k: "k \<in> {1, 2, 3}"
    and cs: "spawned (trace s') = spawned (trace s)
               @ take k [reorient_cmd img wd, trim_cmd wd, pad_cmd wd (padding given)]"
    and ok: "\<forall>p. r = Inr p \<longrightarrow> k = 3 \<and> p = os_path_join wd ''T1wNeckTrim.nii.gz''"
    by blast
  note since = commands_since_append [OF cs]
  from k consider "k = 1" | "k = 2" | "k = 3" by auto
  then show ?thesis
  proof cases
    case 1
    with since ok show ?thesis
      by (auto simp: Let_def reorient_cmd_def)
  next
    case 2
    with since ok show ?thesis
      by (auto simp: Let_def reorient_cmd_def trim_cmd_def numeral_2_eq_2)
  next
    case 3
    with since ok show ?thesis
      by (auto simp: Let_def reorient_cmd_def trim_cmd_def pad_cmd_def numeral_3_eq_3)
  qed
qed

theorem trim_step_invocation_witness:
  "filter (\<lambda>c. take 1 c = [''trim_neck.sh''])
     (commands_since (initial demo_fs)
        (snd (trim_neck demo_env ''brain_native.nii.gz'' ''/tmp/w'' None (initial demo_fs))))
   = [[''trim_neck.sh'', ''-c'', ''20'', ''-w'', ''/tmp/w'',
       ''/tmp/w/input_reoriented_LPI.nii.gz'', ''/tmp/w/T1wNeckTrim.nii.gz'']]"
proof -
  let ?run = "trim_neck demo_env ''brain_native.nii.gz'' ''/tmp/w'' None (initial demo_fs)"
  have run: "?run = (fst ?run, snd ?run)" by simp
  have res: "fst ?run = Inr ''/tmp/w/T1wNeckTrim.nii.gz''" by (rule demo_pipeline)
  have names: "os_path_join ''/tmp/w'' ''input_reoriented_LPI.nii.gz''
                 = ''/tmp/w/input_reoriented_LPI.nii.gz''"
    "os_path_join ''/tmp/w'' ''T1wNeckTrim.nii.gz'' = ''/tmp/w/T1wNeckTrim.nii.gz''"
    by (simp_all add: os_path_join_def)
  from trim_step_invocation [OF run] res show ?thesis
    by (simp add: Let_def names)
qed

text \<open>
  C8. For every run that reaches the pipeline (a third command is started: the two probes
  come first), if the script finds that the directory part of the output path does not
  exist, that directory is created, and this happens when only the two probes have been
  run and no copy has been attempted, hence before the final copy.
\<close>

theorem missing_output_directory_is_created:
  assumes run: "script E a fs = (st, s')"
    and reached: "3 \<le> length (spawned (trace s'))"
    and missing: "Exists (os_path_dirname (arg_output a)) False \<in> set (trace s')"
  shows "MakeDirs (os_path_dirname (arg_output a)) True \<in> set (trace s')
     \<and> spawned (events_before (MakeDirs (os_path_dirname (arg_output a)) True) (trace s'))
         = [[''c3d'', ''-h''], [''trim_neck.sh'', ''-h'']]
     \<and> (\<forall>x y ok. CopyFile x y ok
           \<notin> set (events_before (MakeDirs (os_path_dirname (arg_output a)) True) (trace s')))"
proof -
  let ?d = "os_path_dirname (arg_output a)"
  have created: ?thesis
    if tr: "trace s' = preamble E a fs2 r1 r2 @ rest" and rest: "\<forall>p b. Exists p b \<notin> set rest"
    for fs2 r1 r2 rest
  proof -
    from missing tr rest have "Exists ?d False \<in> set (preamble E a fs2 r1 r2)" by auto
    from preamble_creates [OF this refl] tr show ?thesis
      by (simp add: events_before_def)
  qed
  note [simp] = report_console
  from run show ?thesis
  proof (cases rule: script_cases)
    case (reorient_launch r1 r2 fs2)
    then show ?thesis by (intro created [of fs2 r1 r2]) auto
  next
    case (reorient_nonzero r1 r2 fs2 r3)
    then show ?thesis by (intro created [of fs2 r1 r2]) auto
  next
    case (trim_launch r1 r2 fs2 r3)
    then show ?thesis by (intro created [of fs2 r1 r2]) auto
  next
    case (trim_nonzero r1 r2 fs2 r3 r4)
    then show ?thesis by (intro created [of fs2 r1 r2]) auto
  next
    case (pad_launch r1 r2 fs2 r3 r4)
    then show ?thesis by (intro created [of fs2 r1 r2]) auto
  next
    case (pad_nonzero r1 r2 fs2 r3 r4 r5)
    then show ?thesis by (intro created [of fs2 r1 r2]) auto
  next
    case (copy_failed r1 r2 fs2 r3 r4 r5 k p)
    then show ?thesis by (intro created [of fs2 r1 r2]) auto
  next
    case (copy_done r1 r2 fs2 r3 r4 r5)
    then show ?thesis by (intro created [of fs2 r1 r2]) auto
  qed (use reached in \<open>simp_all add: report_def\<close>)
qed

theorem missing_output_directory_is_created_witness:
  "3 \<le> length (spawned (trace (snd (script demo_env demo_args demo_fs)))) \<and>
   os_path_dirname (arg_output demo_args) = ''out'' \<and>
   MakeDirs ''out'' True \<in> set (trace (snd (script demo_env demo_args demo_fs))) \<and>
   spawned (events_before (MakeDirs ''out'' True) (trace (snd (script demo_env demo_args demo_fs))))
     = [[''c3d'', ''-h''], [''trim_neck.sh'', ''-h'']]"
proof -
  let ?run = "script demo_env demo_args demo_fs"
  have d: "os_path_dirname (arg_output demo_args) = ''out''"
    by (simp add: demo_args_def os_path_dirname_def rstrip_slash_def)
  have run: "?run = (fst ?run, snd ?run)" by simp
  have reached: "3 \<le> length (spawned (trace (snd ?run)))"
    by (simp add: demo_run)
  have missing: "Exists (os_path_dirname (arg_output demo_args)) False \<in> set (trace (snd ?run))"
    by (simp add: demo_run d)
  from missing_output_directory_is_created [OF run reached missing] reached d
  show ?thesis by simp
qed

text \<open>
  C9. In every run of \<^verbatim>\<open>main\<close> from the state the module sets up, the verbose flag is
  false at the start and at the end (nothing in the script writes it), and the record of
  the run is that of a quiet \<^verbatim>\<open>run_command\<close>: no command is started once anything has
  been printed (so no command line is echoed before its command), a command that exits
  with status 0 is not followed by console output (so its streams are not echoed), and a
  command that exits with another status is followed by the error line, the stack trace
  and both streams, which only the raising branch prints, and the run ends in the
  \<^verbatim>\<open>PipelineError\<close> for that command, or in \<^verbatim>\<open>sys.exit(1)\<close> where a probe's handler
  caught it.
\<close>

theorem cli_never_verbose:
  assumes run: "main E a (initial fs) = (res, s')"
  shows "\<not> verbose (initial fs) \<and> \<not> verbose s'
     \<and> spawned (dropWhile (\<lambda>e. \<not> is_console e) (trace s')) = []
     \<and> (\<forall>c r. Ran c r \<in> set (trace s') \<longrightarrow>
          (if returncode r = 0
           then list_all (\<lambda>e. \<not> is_console e) (take 1 (events_after (Ran c r) (trace s')))
           else take 4 (events_after (Ran c r) (trace s')) = report c r
                \<and> res \<in> {Inl (PipelineError (''Error running command: '' @ str_join '' '' c)),
                           Inl (SystemExit 1)}))"
proof -
  have q0: "\<not> verbose (initial fs)" by (simp add: initial_def)
  from keeps_flag_main [of E a]
  have "verbose (snd (main E a (initial fs))) = verbose (initial fs)"
    unfolding keeps_flag_def by blast
  with run q0 have q: "\<not> verbose s'" by simp
  note [simp] = preamble_quiet
  from run have "quiet_record res (trace s')"
  proof (cases rule: cli_cases)
    case c3d_launch
    then show ?thesis
      by (intro quiet_shape [of _ "[]" "SpawnFailed [''c3d'', ''-h'']" "[]"]) simp_all
  next
    case (c3d_nonzero r1)
    then show ?thesis
      by (intro failure_shape [of _ "[]" "[''c3d'', ''-h'']" r1
            "[Print ''Could not run c3d, check PATH'']"]) simp_all
  next
    case (sh_launch r1)
    then show ?thesis
      by (intro quiet_shape [of _ "[Ran [''c3d'', ''-h''] r1]"
            "SpawnFailed [''trim_neck.sh'', ''-h'']" "[]"]) simp_all
  next
    case (sh_nonzero r1 r2)
    then show ?thesis
      by (intro failure_shape [of _ "[Ran [''c3d'', ''-h''] r1]" "[''trim_neck.sh'', ''-h'']" r2
            "[Print ''Could not run trim_neck.sh, check PATH'']"]) simp_all
  next
    case (no_input r1 r2)
    then show ?thesis
      by (intro quiet_shape [of _ "[Ran [''c3d'', ''-h''] r1, Ran [''trim_neck.sh'', ''-h''] r2,
              TempDir (scratch_dir E)]" "Exists (arg_input a) False"
            "[Print (''Input image '' @ arg_input a @ '' does not exist'')]"]) auto
  next
    case (reorient_launch r1 r2 fs2)
    then show ?thesis
      by (intro quiet_shape [of _ "preamble E a fs2 r1 r2" "SpawnFailed (reorient_cmd (arg_input a) (scratch_dir E))" "[]"])
        (auto dest: preamble_ok)
  next
    case (reorient_nonzero r1 r2 fs2 r3)
    then show ?thesis
      by (intro failure_shape [of _ "preamble E a fs2 r1 r2" "reorient_cmd (arg_input a) (scratch_dir E)" r3 "[]"])
        (auto dest: preamble_ok)
  next
    case (trim_launch r1 r2 fs2 r3)
    then show ?thesis
      by (intro quiet_shape [of _ "preamble E a fs2 r1 r2 @ [Ran (reorient_cmd (arg_input a) (scratch_dir E)) r3]"
            "SpawnFailed (trim_cmd (scratch_dir E))" "[]"])
        (auto dest: preamble_ok)
  next
    case (trim_nonzero r1 r2 fs2 r3 r4)
    then show ?thesis
      by (intro failure_shape [of _ "preamble E a fs2 r1 r2 @ [Ran (reorient_cmd (arg_input a) (scratch_dir E)) r3]"
            "trim_cmd (scratch_dir E)" r4 "[]"])
        (auto dest: preamble_ok)
  next
    case (pad_launch r1 r2 fs2 r3 r4)
    then show ?thesis
      by (intro quiet_shape [of _ "preamble E a fs2 r1 r2 @ [Ran (reorient_cmd (arg_input a) (scratch_dir E)) r3, Ran (trim_cmd (scratch_dir E)) r4]"
            "SpawnFailed (pad_cmd (scratch_dir E) 10)" "[]"])
        (auto dest: preamble_ok)
  next
    case (pad_nonzero r1 r2 fs2 r3 r4 r5)
    then show ?thesis
      by (intro failure_shape [of _ "preamble E a fs2 r1 r2 @ [Ran (reorient_cmd (arg_input a) (scratch_dir E)) r3, Ran (trim_cmd (scratch_dir E)) r4]"
            "pad_cmd (scratch_dir E) 10" r5 "[]"])
        (auto dest: preamble_ok)
  next
    case (copy_failed r1 r2 fs2 r3 r4 r5 k p)
    then show ?thesis
      by (intro quiet_shape [of _
            "preamble E a fs2 r1 r2 @ [Ran (reorient_cmd (arg_input a) (scratch_dir E)) r3, Ran (trim_cmd (scratch_dir E)) r4, Ran (pad_cmd (scratch_dir E) 10) r5]"
            "CopyFile (trimmed_path E) (arg_output a) False" "[]"])
        (auto dest: preamble_ok)
  next
    case (copy_done r1 r2 fs2 r3 r4 r5)
    then show ?thesis
      by (intro quiet_shape [of _
            "preamble E a fs2 r1 r2 @ [Ran (reorient_cmd (arg_input a) (scratch_dir E)) r3, Ran (trim_cmd (scratch_dir E)) r4, Ran (pad_cmd (scratch_dir E) 10) r5]"
            "CopyFile (trimmed_path E) (arg_output a) True" "[]"])
        (auto dest: preamble_ok)
  qed
  with q0 q show ?thesis unfolding quiet_record_def by blast
qed

theorem cli_never_verbose_witness:
  "returncode no_space \<noteq> 0 \<and>
   \<not> verbose (snd (main pad_fails_env demo_args (initial demo_fs))) \<and>
   take 4 (events_after
        (Ran [''c3d'', ''/tmp/tmpk3f9t1wpreproc.tmpdir/T1wNeckTrim.nii.gz'', ''-pad'',
              ''10x10x10mm'', ''10x10x10mm'', ''0'', ''-o'',
              ''/tmp/tmpk3f9t1wpreproc.tmpdir/T1wNeckTrim.nii.gz''] no_space)
        (trace (snd (main pad_fails_env demo_args (initial demo_fs))))) =
     report [''c3d'', ''/tmp/tmpk3f9t1wpreproc.tmpdir/T1wNeckTrim.nii.gz'', ''-pad'',
              ''10x10x10mm'', ''10x10x10mm'', ''0'', ''-o'',
              ''/tmp/tmpk3f9t1wpreproc.tmpdir/T1wNeckTrim.nii.gz''] no_space \<and>
   fst (main pad_fails_env demo_args (initial demo_fs)) \<in>
     {Inl (PipelineError ''Error running command: c3d /tmp/tmpk3f9t1wpreproc.tmpdir/T1wNeckTrim.nii.gz -pad 10x10x10mm 10x10x10mm 0 -o /tmp/tmpk3f9t1wpreproc.tmpdir/T1wNeckTrim.nii.gz''),
      Inl (SystemExit 1)}"
proof -
  let ?c = "[''c3d'', ''/tmp/tmpk3f9t1wpreproc.tmpdir/T1wNeckTrim.nii.gz'', ''-pad'',
              ''10x10x10mm'', ''10x10x10mm'', ''0'', ''-o'',
              ''/tmp/tmpk3f9t1wpreproc.tmpdir/T1wNeckTrim.nii.gz'']"
  let ?run = "main pad_fails_env demo_args (initial demo_fs)"
  have run: "?run = (fst ?run, snd ?run)" by simp
  have mem: "Ran ?c no_space \<in> set (trace (snd ?run))"
    using pad_fails_run(2) by (simp add: ran_in_script [symmetric])
  have nz: "returncode no_space \<noteq> 0" by (simp add: no_space_def)
  from cli_never_verbose [OF run] have
    "\<not> verbose (snd ?run)" and
    "\<forall>c r. Ran c r \<in> set (trace (snd ?run)) \<longrightarrow>
          (if returncode r = 0
           then list_all (\<lambda>e. \<not> is_console e) (take 1 (events_after (Ran c r) (trace (snd ?run))))
           else take 4 (events_after (Ran c r) (trace (snd ?run))) = report c r
                \<and> fst ?run \<in> {Inl (PipelineError (''Error running command: '' @ str_join '' '' c)),
                           Inl (SystemExit 1)})"
    by blast+
  from this(1) this(2) [rule_format, OF mem] nz show ?thesis
    by simp

qed

text \<open>
  C10. The script never asks for a directory with the empty name to be created. When the
  output path is a bare file name (it contains no slash), its directory part is empty, no
  directory creation is attempted at all, the only existence test of the run is that of
  the input path, and a copy, if the run gets that far, goes from the trimmed image in the
  scratch directory to the bare path itself.
\<close>

theorem bare_output_name_needs_no_directory:
  assumes run: "script E a fs = (st, s')"
  shows "(\<forall>ok. MakeDirs [] ok \<notin> set (trace s'))
     \<and> (CHR ''/'' \<notin> set (arg_output a) \<longrightarrow>
          os_path_dirname (arg_output a) = []
          \<and> (\<forall>d ok. MakeDirs d ok \<notin> set (trace s'))
          \<and> (\<forall>p b. Exists p b \<in> set (trace s') \<longrightarrow> p = arg_input a)
          \<and> (\<forall>x y ok. CopyFile x y ok \<in> set (trace s') \<longrightarrow>
                x = trimmed_path E \<and> y = arg_output a))"
proof -
  have bare: "os_path_dirname (arg_output a) = []" if "CHR ''/'' \<notin> set (arg_output a)"
    using that by (simp add: dirname_empty_iff)
  have piped: ?thesis
    if tr: "trace s' = preamble E a fs2 r1 r2 @ rest"
      and rest: "\<forall>d ok. MakeDirs d ok \<notin> set rest" "\<forall>p b. Exists p b \<notin> set rest"
        "\<forall>x y ok. CopyFile x y ok \<in> set rest \<longrightarrow> x = trimmed_path E \<and> y = arg_output a"
    for fs2 r1 r2 rest
  proof (intro conjI impI)
    show "\<forall>ok. MakeDirs [] ok \<notin> set (trace s')"
      using tr rest by (auto dest: preamble_makedirs)
  next
    assume "CHR ''/'' \<notin> set (arg_output a)"
    then show "os_path_dirname (arg_output a) = []" by (rule bare)
  next
    assume "CHR ''/'' \<notin> set (arg_output a)"
    then have "os_path_dirname (arg_output a) = []" by (rule bare)
    with tr rest show "\<forall>d ok. MakeDirs d ok \<notin> set (trace s')"
      by (auto dest: preamble_makedirs)
  next
    assume "CHR ''/'' \<notin> set (arg_output a)"
    then have "os_path_dirname (arg_output a) = []" by (rule bare)
    from preamble_bare [OF this] tr rest
    show "\<forall>p b. Exists p b \<in> set (trace s') \<longrightarrow> p = arg_input a"
      by auto
  next
    from tr rest show "\<forall>x y ok. CopyFile x y ok \<in> set (trace s') \<longrightarrow>
                x = trimmed_path E \<and> y = arg_output a"
      by (auto simp: preamble_no_copy)
  qed
  note [simp] = report_console report_no_makedirs
  from run show ?thesis
  proof (cases rule: script_cases)
    case (reorient_launch r1 r2 fs2)
    then show ?thesis by (intro piped [of fs2 r1 r2]) auto
  next
    case (reorient_nonzero r1 r2 fs2 r3)
    then show ?thesis by (intro piped [of fs2 r1 r2]) auto
  next
    case (trim_launch r1 r2 fs2 r3)
    then show ?thesis by (intro piped [of fs2 r1 r2]) auto
  next
    case (trim_nonzero r1 r2 fs2 r3 r4)
    then show ?thesis by (intro piped [of fs2 r1 r2]) auto
  next
    case (pad_launch r1 r2 fs2 r3 r4)
    then show ?thesis by (intro piped [of fs2 r1 r2]) auto
  next
    case (pad_nonzero r1 r2 fs2 r3 r4 r5)
    then show ?thesis by (intro piped [of fs2 r1 r2]) auto
  next
    case (copy_failed r1 r2 fs2 r3 r4 r5 k p)
    then show ?thesis by (intro piped [of fs2 r1 r2]) auto
  next
    case (copy_done r1 r2 fs2 r3 r4 r5)
    then show ?thesis by (intro piped [of fs2 r1 r2]) auto
  qed (use bare in \<open>auto simp: report_def\<close>)
qed

theorem bare_output_name_needs_no_directory_witness:
  "CHR ''/'' \<notin> set (arg_output bare_args) \<and>
   os_path_dirname (arg_output bare_args) = [] \<and>
   CopyFile (trimmed_path demo_env) (arg_output bare_args) True
     \<in> set (trace (snd (script demo_env bare_args demo_fs))) \<and>
   filter (\<lambda>e. e = MakeDirs [] True \<or> e = MakeDirs [] False)
     (trace (snd (script demo_env bare_args demo_fs))) = []"
proof -
  let ?run = "script demo_env bare_args demo_fs"
  have out: "arg_output bare_args = ''trimmed.nii.gz''"
    and tp: "trimmed_path demo_env = ''/tmp/tmpk3f9t1wpreproc.tmpdir/T1wNeckTrim.nii.gz''"
    by (simp_all add: bare_args_def trimmed_path_def scratch_dir_def demo_env_def os_path_join_def)
  have run: "?run = (fst ?run, snd ?run)" by simp
  have bare: "CHR ''/'' \<notin> set (arg_output bare_args)" by (simp add: out)
  have copy: "CopyFile (trimmed_path demo_env) (arg_output bare_args) True \<in> set (trace (snd ?run))"
    by (simp add: bare_run out tp)
  from bare_output_name_needs_no_directory [OF run] bare copy show ?thesis
    by (auto simp: filter_empty_conv)
qed

end
